theory Spec2Isabelle
  imports Complex_Main "HOL-Library.List_Lexorder" "HOL-Library.Char_ord"
begin

section \<open>Python values\<close>

text \<open>
  The agent handles decoded JSON documents (job records, upload results, request
  payloads).  A decoded document is \<open>None\<close>, a \<open>bool\<close>, an \<open>int\<close>, a \<open>float\<close>, a \<open>str\<close>,
  a \<open>list\<close> or a \<open>dict\<close>.  The carrier of floating-point numbers is the type
  parameter \<open>'f\<close>: the code never computes with floats, it only converts to them and
  compares them, and both operations are taken from the runtime (see \<open>runtime\<close>).
  A \<open>dict\<close> is an association list in insertion order whose lookup returns the first
  binding of a key.
\<close>

datatype 'f json =
    JNull
  | JBool bool
  | JInt int
  | JFloat 'f
  | JStr string
  | JList "'f json list"
  | JObj "(string \<times> 'f json) list"

type_synonym 'f pydict = "(string \<times> 'f json) list"

text \<open>\<open>d.get(key)\<close> and \<open>d.get(key, default)\<close>.\<close>

definition dict_get_default :: "'f pydict \<Rightarrow> string \<Rightarrow> 'f json \<Rightarrow> 'f json" where
  "dict_get_default d k dflt = (case map_of d k of None \<Rightarrow> dflt | Some v \<Rightarrow> v)"

definition dict_get :: "'f pydict \<Rightarrow> string \<Rightarrow> 'f json" where
  "dict_get d k = dict_get_default d k JNull"

text \<open>
  Exceptions, by class, each with the text \<open>str(exc)\<close> gives.  \<open>OtherException\<close>
  stands for every further subclass of \<open>Exception\<close> a library call may raise
  (connection errors, time-outs, SDK errors).
\<close>

datatype exn =
    ValueError string
  | TypeError string
  | OverflowError string
  | AttributeError string
  | RuntimeError string
  | SeedstrApiError string
  | OtherException string

fun exn_str :: "exn \<Rightarrow> string" where
  "exn_str (ValueError m) = m"
| "exn_str (TypeError m) = m"
| "exn_str (OverflowError m) = m"
| "exn_str (AttributeError m) = m"
| "exn_str (RuntimeError m) = m"
| "exn_str (SeedstrApiError m) = m"
| "exn_str (OtherException m) = m"

subsection \<open>Strings\<close>

text \<open>
  A character is a code point below 256.  \<open>str.strip()\<close> and \<open>str.rstrip()\<close> without
  argument remove the characters \<open>str.isspace()\<close> accepts; below 256 these are
  U+0009 to U+000D, U+001C to U+0020, U+0085 and U+00A0.
\<close>

definition py_isspace :: "char \<Rightarrow> bool" where
  "py_isspace c = (of_char c \<in> {9, 10, 11, 12, 13, 28, 29, 30, 31, 32, 133, 160 :: nat})"

definition lstrip :: "string \<Rightarrow> string" where
  "lstrip s = dropWhile py_isspace s"

definition rstrip :: "string \<Rightarrow> string" where
  "rstrip s = rev (dropWhile py_isspace (rev s))"

definition strip :: "string \<Rightarrow> string" where
  "strip s = rstrip (lstrip s)"

text \<open>\<open>sep.join(xs)\<close>.\<close>

fun join :: "string \<Rightarrow> string list \<Rightarrow> string" where
  "join sep [] = []"
| "join sep [x] = x"
| "join sep (x # y # ys) = x @ sep @ join sep (y # ys)"

text \<open>The decimal numeral of an integer, as \<open>str(n)\<close> prints it.\<close>

fun digits :: "nat \<Rightarrow> string" where
  "digits n =
     (if n < 10 then [''0123456789'' ! n]
      else digits (n div 10) @ [''0123456789'' ! (n mod 10)])"

declare digits.simps [simp del]

definition str_int :: "int \<Rightarrow> string" where
  "str_int i = (if i < 0 then CHR ''-'' # digits (nat (- i)) else digits (nat i))"

text \<open>
  \<open>str(value)\<close> on a decoded JSON value.  The printed form of a float, a list or a
  dict is the runtime's \<open>repr\<close>, the parameter \<open>rp\<close>.
\<close>

fun py_str :: "('f json \<Rightarrow> string) \<Rightarrow> 'f json \<Rightarrow> string" where
  "py_str rp (JStr s) = s"
| "py_str rp JNull = ''None''"
| "py_str rp (JBool b) = (if b then ''True'' else ''False'')"
| "py_str rp (JInt i) = str_int i"
| "py_str rp v = rp v"

section \<open>The outside world\<close>

text \<open>
  Every call that leaves the process is recorded in a trace, and what the outside
  answers is a function of the calls made so far and of the call itself: a
  deterministic environment whose answers may change from call to call.
\<close>

datatype 'f call =
    HttpRequest string string "'f json option"
  | GeminiGenerate string string
  | OpenAIChat string string string

text \<open>
  \<open>http\<close> is \<open>SeedstrApiClient._request\<close> seen from its callers: the decoded body,
  a \<open>SeedstrApiError\<close> (undecodable body or a status that is not ok), or whatever the
  transport raised.  \<open>gemini_sdk\<close> and \<open>openai_sdk\<close> are the two provider calls; they
  raise, or give the text field of the answer, which may be absent.  \<open>fs_archive\<close> is
  the creation of the temporary directory and of the archive in it (\<open>None\<close> when both
  succeed), \<open>zip_b64\<close> the base64 text of the archive's bytes, \<open>now_utc\<close> the clock's
  ISO-8601 reading and \<open>guess_mime\<close> is \<open>mimetypes.guess_type\<close>.
\<close>

record 'f world =
  http :: "'f call list \<Rightarrow> string \<Rightarrow> string \<Rightarrow> 'f json option \<Rightarrow> exn + 'f json"
  gemini_sdk :: "'f call list \<Rightarrow> string \<Rightarrow> string \<Rightarrow> exn + string option"
  openai_sdk :: "'f call list \<Rightarrow> string \<Rightarrow> string \<Rightarrow> string \<Rightarrow> exn + string option"
  fs_archive :: "'f call list \<Rightarrow> string \<Rightarrow> (string \<times> string) list \<Rightarrow> exn option"
  zip_b64 :: "'f call list \<Rightarrow> (string \<times> string) list \<Rightarrow> string"
  now_utc :: "'f call list \<Rightarrow> string"
  guess_mime :: "string \<Rightarrow> string option"

text \<open>
  What the code takes from the Python runtime: \<open>float(n)\<close> of an \<open>int\<close> (\<open>None\<close>: it
  raises \<open>OverflowError\<close>), \<open>float(s)\<close> of a \<open>str\<close> (\<open>None\<close>: it raises \<open>ValueError\<close>),
  the float \<open>0.0\<close>, \<open><\<close> on floats, \<open>repr\<close> of a float, list or dict, and the order in
  which a \<open>set\<close> of strings is iterated.  That order is fixed by the hash table behind
  the set, so it is a function of the sequence of insertions that built the set (and
  of the interpreter's hash seed, which is part of the runtime); it need not be the
  order of insertion.
\<close>

record 'f runtime =
  float_of_int :: "int \<Rightarrow> 'f option"
  float_of_str :: "string \<Rightarrow> 'f option"
  float_zero :: "'f"
  float_less :: "'f \<Rightarrow> 'f \<Rightarrow> bool"
  repr :: "'f json \<Rightarrow> string"
  set_order :: "string list \<Rightarrow> string list"

section \<open>Model failover client (llm.py)\<close>

record ModelTarget =
  provider :: string
  model :: string

record LLMFailoverClient =
  targets :: "ModelTarget list"
  gemini_enabled :: bool
  openai_enabled :: bool
  openai_client :: bool

definition target :: "string \<Rightarrow> string \<Rightarrow> ModelTarget" where
  "target p m = \<lparr>provider = p, model = m\<rparr>"

text \<open>\<open>LLMFailoverClient.__init__\<close>: the client, or the \<open>ValueError\<close> it raises.\<close>

definition llm_init ::
  "string \<Rightarrow> string \<Rightarrow> string list \<Rightarrow> string list \<Rightarrow> exn + LLMFailoverClient" where
  "llm_init gemini_api_key openai_api_key gemini_models openai_models =
     (let ge = (gemini_api_key \<noteq> [] \<and> gemini_models \<noteq> []);
          oe = (openai_api_key \<noteq> [] \<and> openai_models \<noteq> []);
          ts0 = [];
          ts1 = (if ge then ts0 @ map (target ''gemini'') gemini_models else ts0);
          ts2 = (if oe then ts1 @ map (target ''openai'') openai_models else ts1)
      in if ts2 = []
         then Inl (ValueError
           ''No LLM models configured. Set GEMINI_API_KEY/OPENAI_API_KEY with model lists.'')
         else Inr \<lparr>targets = ts2, gemini_enabled = ge, openai_enabled = oe,
                   openai_client = oe\<rparr>)"

text \<open>The spec's wording: a provider is enabled when credential and model list are non-empty.\<close>

definition provider_enabled :: "string \<Rightarrow> string list \<Rightarrow> bool" where
  "provider_enabled api_key models = (api_key \<noteq> [] \<and> models \<noteq> [])"

text \<open>\<open>_generate_gemini\<close> and \<open>_generate_openai\<close>: the text, or the exception raised.\<close>

definition gemini_full_prompt :: "string \<Rightarrow> string \<Rightarrow> string" where
  "gemini_full_prompt prompt system_prompt =
     system_prompt @ [CHR 0x0A, CHR 0x0A] @ ''User task:'' @ [CHR 0x0A] @ prompt
       @ [CHR 0x0A, CHR 0x0A] @ ''Return only the final answer for the user.''"

definition generate_gemini ::
  "'f world \<Rightarrow> 'f call list \<Rightarrow> string \<Rightarrow> string \<Rightarrow> string \<Rightarrow> (exn + string) \<times> 'f call list" where
  "generate_gemini w tr model_name prompt system_prompt =
     (let full_prompt = gemini_full_prompt prompt system_prompt;
          tr' = tr @ [GeminiGenerate model_name full_prompt]
      in case gemini_sdk w tr model_name full_prompt of
           Inl e \<Rightarrow> (Inl e, tr')
         | Inr None \<Rightarrow> (Inl (RuntimeError ''Gemini response has no text field''), tr')
         | Inr (Some text) \<Rightarrow>
             if text = [] then (Inl (RuntimeError ''Gemini response has no text field''), tr')
             else (Inr text, tr'))"

definition generate_openai ::
  "'f world \<Rightarrow> LLMFailoverClient \<Rightarrow> 'f call list \<Rightarrow> string \<Rightarrow> string \<Rightarrow> string
     \<Rightarrow> (exn + string) \<times> 'f call list" where
  "generate_openai w c tr model_name prompt system_prompt =
     (if \<not> openai_client c then (Inl (RuntimeError ''OpenAI client is not configured''), tr)
      else
        let tr' = tr @ [OpenAIChat model_name system_prompt prompt]
        in case openai_sdk w tr model_name system_prompt prompt of
             Inl e \<Rightarrow> (Inl e, tr')
           | Inr None \<Rightarrow> (Inl (RuntimeError ''OpenAI response is empty''), tr')
           | Inr (Some content) \<Rightarrow>
               if content = [] then (Inl (RuntimeError ''OpenAI response is empty''), tr')
               else (Inr content, tr'))"

text \<open>The body of the \<open>try\<close> of one loop iteration of \<open>generate\<close>, up to the provider's answer.\<close>

definition call_target ::
  "'f world \<Rightarrow> LLMFailoverClient \<Rightarrow> string \<Rightarrow> string \<Rightarrow> 'f call list \<Rightarrow> ModelTarget
     \<Rightarrow> (exn + string) \<times> 'f call list" where
  "call_target w c prompt system_prompt tr t =
     (if provider t = ''gemini'' then generate_gemini w tr (model t) prompt system_prompt
      else generate_openai w c tr (model t) prompt system_prompt)"

definition label :: "ModelTarget \<Rightarrow> string" where
  "label t = provider t @ '':'' @ model t"

text \<open>
  The loop of \<open>generate\<close> over the remaining targets, with the failure reasons
  collected so far; \<open>generate\<close> starts it on \<open>self.targets\<close> with none.
\<close>

fun generate_loop ::
  "'f world \<Rightarrow> LLMFailoverClient \<Rightarrow> string \<Rightarrow> string \<Rightarrow> ModelTarget list \<Rightarrow> string list
     \<Rightarrow> 'f call list \<Rightarrow> (exn + string \<times> string) \<times> 'f call list" where
  "generate_loop w c prompt system_prompt [] errors tr =
     (Inl (RuntimeError (''All configured models failed. '' @ join '' | '' errors)), tr)"
| "generate_loop w c prompt system_prompt (t # ts) errors tr =
     (case call_target w c prompt system_prompt tr t of
        (Inr text, tr') \<Rightarrow>
          if strip text \<noteq> [] then (Inr (strip text, label t), tr')
          else generate_loop w c prompt system_prompt ts
                 (errors @ [label t @ '' returned empty output'']) tr'
      | (Inl exc, tr') \<Rightarrow>
          generate_loop w c prompt system_prompt ts
            (errors @ [label t @ '' failed: '' @ exn_str exc]) tr')"

definition generate ::
  "'f world \<Rightarrow> LLMFailoverClient \<Rightarrow> 'f call list \<Rightarrow> string \<Rightarrow> string
     \<Rightarrow> (exn + string \<times> string) \<times> 'f call list" where
  "generate w c tr prompt system_prompt = generate_loop w c prompt system_prompt (targets c) [] tr"

subsection \<open>Notions used to state the properties of \<open>generate\<close>\<close>

text \<open>
  The trace after the loop has gone through the targets \<open>ts\<close>, the answer the target
  at position \<open>i\<close> gets when all targets before it were tried, when an answer counts
  as a failure, the reason the loop records for a failure, and the calls one target
  causes.
\<close>

definition trace_after ::
  "'f world \<Rightarrow> LLMFailoverClient \<Rightarrow> string \<Rightarrow> string \<Rightarrow> 'f call list \<Rightarrow> ModelTarget list
     \<Rightarrow> 'f call list" where
  "trace_after w c prompt system_prompt tr ts =
     foldl (\<lambda>tr t. snd (call_target w c prompt system_prompt tr t)) tr ts"

definition outcome_at ::
  "'f world \<Rightarrow> LLMFailoverClient \<Rightarrow> string \<Rightarrow> string \<Rightarrow> 'f call list \<Rightarrow> ModelTarget list
     \<Rightarrow> nat \<Rightarrow> exn + string" where
  "outcome_at w c prompt system_prompt tr ts i =
     fst (call_target w c prompt system_prompt
            (trace_after w c prompt system_prompt tr (take i ts)) (ts ! i))"

definition target_fails :: "exn + string \<Rightarrow> bool" where
  "target_fails r = (case r of Inl exc \<Rightarrow> True | Inr text \<Rightarrow> strip text = [])"

definition failure_reason :: "ModelTarget \<Rightarrow> exn + string \<Rightarrow> string" where
  "failure_reason t r =
     (case r of
        Inl exc \<Rightarrow> provider t @ '':'' @ model t @ '' failed: '' @ exn_str exc
      | Inr text \<Rightarrow> provider t @ '':'' @ model t @ '' returned empty output'')"

definition failure_reasons ::
  "'f world \<Rightarrow> LLMFailoverClient \<Rightarrow> string \<Rightarrow> string \<Rightarrow> 'f call list \<Rightarrow> ModelTarget list
     \<Rightarrow> string list" where
  "failure_reasons w c prompt system_prompt tr ts =
     map (\<lambda>i. failure_reason (ts ! i) (outcome_at w c prompt system_prompt tr ts i))
       [0..<length ts]"

definition target_calls :: "LLMFailoverClient \<Rightarrow> string \<Rightarrow> string \<Rightarrow> ModelTarget \<Rightarrow> 'f call list" where
  "target_calls c prompt system_prompt t =
     (if provider t = ''gemini''
      then [GeminiGenerate (model t) (gemini_full_prompt prompt system_prompt)]
      else if openai_client c then [OpenAIChat (model t) system_prompt prompt] else [])"

section \<open>Marketplace client (api.py)\<close>

text \<open>A request: the answer of the outside, and the trace with the call added.\<close>

definition request ::
  "'f world \<Rightarrow> 'f call list \<Rightarrow> string \<Rightarrow> string \<Rightarrow> 'f json option
     \<Rightarrow> (exn + 'f json) \<times> 'f call list" where
  "request w tr method endpoint payload =
     (http w tr method endpoint payload, tr @ [HttpRequest method endpoint payload])"

definition accept_job :: "'f world \<Rightarrow> 'f call list \<Rightarrow> string \<Rightarrow> (exn + 'f json) \<times> 'f call list" where
  "accept_job w tr job_id = request w tr ''POST'' (''/jobs/'' @ job_id @ ''/accept'') None"

definition extract_upload_file_candidates :: "'f pydict \<Rightarrow> 'f pydict list" where
  "extract_upload_file_candidates upload_result =
     (case dict_get upload_result ''files'' of
        JList files \<Rightarrow> List.map_filter (\<lambda>item. case item of JObj d \<Rightarrow> Some d | _ \<Rightarrow> None) files
      | _ \<Rightarrow>
        (case dict_get upload_result ''file'' of
           JObj file_obj \<Rightarrow> [file_obj]
         | _ \<Rightarrow> []))"

definition ref_keys :: "string list" where
  "ref_keys = [''url'', ''fileUrl'', ''cdnUrl'', ''signedUrl'', ''path'', ''key'', ''id'', ''fileId'']"

text \<open>The local function \<open>add_ref\<close>, with the list \<open>refs\<close> it appends to passed and returned.\<close>

definition add_ref :: "('f json \<Rightarrow> string) \<Rightarrow> string list \<Rightarrow> 'f json \<Rightarrow> string list" where
  "add_ref rp refs v =
     (case v of
        JNull \<Rightarrow> refs
      | _ \<Rightarrow>
        (let text = strip (py_str rp v)
         in if text \<noteq> [] \<and> text \<notin> set refs then refs @ [text] else refs))"

definition add_refs_of :: "('f json \<Rightarrow> string) \<Rightarrow> string list \<Rightarrow> 'f pydict \<Rightarrow> string list" where
  "add_refs_of rp refs d = foldl (\<lambda>refs k. add_ref rp refs (dict_get d k)) refs ref_keys"

definition extract_upload_reference_strings :: "('f json \<Rightarrow> string) \<Rightarrow> 'f pydict \<Rightarrow> string list" where
  "extract_upload_reference_strings rp upload_result =
     foldl (add_refs_of rp) (add_refs_of rp [] upload_result)
       (extract_upload_file_candidates upload_result)"

text \<open>The list \<open>attempts\<close> that \<open>respond_file\<close> builds.\<close>

definition ref_attempts :: "string \<Rightarrow> 'f json list" where
  "ref_attempts ref =
     [JObj [(''responseType'', JStr ''FILE''), (''content'', JStr ref)],
      JObj [(''responseType'', JStr ''FILE''), (''fileUrl'', JStr ref)],
      JObj [(''responseType'', JStr ''FILE''), (''url'', JStr ref)],
      JObj [(''responseType'', JStr ''FILE''), (''attachments'', JList [JStr ref])],
      JObj [(''responseType'', JStr ''FILE''), (''files'', JList [JObj [(''url'', JStr ref)]])]]"

definition respond_attempts :: "('f json \<Rightarrow> string) \<Rightarrow> 'f pydict \<Rightarrow> string \<Rightarrow> 'f json list" where
  "respond_attempts rp upload_result fallback_text =
     (let file_items = extract_upload_file_candidates upload_result;
          refs = extract_upload_reference_strings rp upload_result;
          attempts0 = [];
          attempts1 =
            (if file_items \<noteq> [] then
               (let a = attempts0 @
                      [JObj [(''responseType'', JStr ''FILE''),
                             (''files'', JList (map JObj file_items))]]
                in if length file_items = 1
                   then a @ [JObj [(''responseType'', JStr ''FILE''),
                                   (''file'', JObj (file_items ! 0))]]
                   else a)
             else attempts0);
          attempts2 = foldl (\<lambda>attempts ref. attempts @ ref_attempts ref) attempts1 refs
      in attempts2 @ [JObj [(''responseType'', JStr ''TEXT''), (''content'', JStr fallback_text)]])"

text \<open>
  The loop over \<open>attempts\<close>, with \<open>last_error\<close>; only a \<open>SeedstrApiError\<close> is caught,
  anything else a request raises leaves \<open>respond_file\<close> as it is.
\<close>

fun try_attempts ::
  "'f world \<Rightarrow> string \<Rightarrow> string \<Rightarrow> 'f json list \<Rightarrow> string option \<Rightarrow> 'f call list
     \<Rightarrow> (exn + 'f json) \<times> 'f call list" where
  "try_attempts w job_id endpoint [] last_error tr =
     (Inl (SeedstrApiError (''Failed to submit file response for job '' @ job_id @ '': '' @
             (case last_error of None \<Rightarrow> ''None'' | Some m \<Rightarrow> m))), tr)"
| "try_attempts w job_id endpoint (payload # rest) last_error tr =
     (case request w tr ''POST'' endpoint (Some payload) of
        (Inl (SeedstrApiError m), tr') \<Rightarrow> try_attempts w job_id endpoint rest (Some m) tr'
      | (r, tr') \<Rightarrow> (r, tr'))"

definition respond_file ::
  "('f json \<Rightarrow> string) \<Rightarrow> 'f world \<Rightarrow> 'f call list \<Rightarrow> string \<Rightarrow> 'f pydict \<Rightarrow> string
     \<Rightarrow> (exn + 'f json) \<times> 'f call list" where
  "respond_file rp w tr job_id upload_result fallback_text =
     try_attempts w job_id (''/jobs/'' @ job_id @ ''/respond'')
       (respond_attempts rp upload_result fallback_text) None tr"

text \<open>
  \<open>upload_file\<close>.  \<open>file\<close> is what is stored at the path: nothing, or a file whose
  bytes have the base64 text given.  \<open>Path.name\<close> is the part after the last slash.
\<close>

definition path_name :: "string \<Rightarrow> string" where
  "path_name p = rev (takeWhile (\<lambda>c. c \<noteq> CHR ''/'') (rev p))"

definition upload_file ::
  "'f world \<Rightarrow> 'f call list \<Rightarrow> string \<Rightarrow> string option \<Rightarrow> (exn + 'f json) \<times> 'f call list" where
  "upload_file w tr file_path file =
     (case file of
        None \<Rightarrow> (Inl (SeedstrApiError (''File not found: '' @ file_path)), tr)
      | Some encoded \<Rightarrow>
        (let file_type =
               (case guess_mime w (path_name file_path) of
                  None \<Rightarrow> ''application/octet-stream''
                | Some mime_type \<Rightarrow>
                    if mime_type = [] then ''application/octet-stream'' else mime_type);
             payload = JObj [(''files'', JList [JObj
               [(''name'', JStr (path_name file_path)),
                (''content'', JStr encoded),
                (''type'', JStr file_type)]])]
         in request w tr ''POST'' ''/upload'' (Some payload)))"

subsection \<open>Notions used to state the properties of \<open>respond_file\<close>\<close>

text \<open>
  The endpoint and the request of one attempt, the answer attempt \<open>i\<close> gets after
  the attempts before it were made, whether an answer is the \<open>SeedstrApiError\<close> the
  loop catches, the text of an error, and the payloads by kind.
\<close>

definition respond_endpoint :: "string \<Rightarrow> string" where
  "respond_endpoint job_id = ''/jobs/'' @ job_id @ ''/respond''"

definition post_call :: "string \<Rightarrow> 'f json \<Rightarrow> 'f call" where
  "post_call endpoint payload = HttpRequest ''POST'' endpoint (Some payload)"

definition reply_at ::
  "'f world \<Rightarrow> 'f call list \<Rightarrow> string \<Rightarrow> 'f json list \<Rightarrow> nat \<Rightarrow> exn + 'f json" where
  "reply_at w tr endpoint attempts i =
     http w (tr @ map (post_call endpoint) (take i attempts)) ''POST'' endpoint
       (Some (attempts ! i))"

definition is_api_error :: "exn + 'a \<Rightarrow> bool" where
  "is_api_error r = (case r of Inl (SeedstrApiError m) \<Rightarrow> True | _ \<Rightarrow> False)"

definition error_text :: "exn + 'a \<Rightarrow> string" where
  "error_text r = (case r of Inl e \<Rightarrow> exn_str e | Inr v \<Rightarrow> [])"

definition file_attempts :: "'f pydict list \<Rightarrow> 'f json list" where
  "file_attempts file_items =
     (if file_items = [] then []
      else JObj [(''responseType'', JStr ''FILE''), (''files'', JList (map JObj file_items))] #
           (if length file_items = 1
            then [JObj [(''responseType'', JStr ''FILE''), (''file'', JObj (hd file_items))]]
            else []))"

definition text_attempt :: "string \<Rightarrow> 'f json" where
  "text_attempt fallback_text =
     JObj [(''responseType'', JStr ''TEXT''), (''content'', JStr fallback_text)]"

section \<open>Job pipeline (runner.py)\<close>

record 'f settings =
  min_budget_usd :: "'f"

text \<open>
  The runner's own state: the set \<open>_seen_jobs\<close> and the document stored at
  \<open>settings.state_path\<close> (\<open>None\<close>: no file, or one that is not JSON).  The set is
  given by its elements, \<open>seen_jobs\<close>, and by the sequence in which they were added to
  it, \<open>insertions\<close>, on which the order of its iteration depends.
\<close>

record 'f runner =
  seen_jobs :: "string set"
  insertions :: "string list"
  state_file :: "'f json option"

text \<open>\<open>s.add(x)\<close> on the sequence of insertions: adding an element again changes nothing.\<close>

definition record_insertion :: "string list \<Rightarrow> string \<Rightarrow> string list" where
  "record_insertion ins x = (if x \<in> set ins then ins else ins @ [x])"

text \<open>\<open>float(v)\<close> on a decoded JSON value.\<close>

definition py_float :: "'f runtime \<Rightarrow> 'f json \<Rightarrow> exn + 'f" where
  "py_float rt v =
     (case v of
        JNull \<Rightarrow> Inl (TypeError ''float() argument must be a string or a real number'')
      | JBool b \<Rightarrow>
          (case float_of_int rt (if b then 1 else 0) of
             None \<Rightarrow> Inl (OverflowError ''int too large to convert to float'')
           | Some x \<Rightarrow> Inr x)
      | JInt i \<Rightarrow>
          (case float_of_int rt i of
             None \<Rightarrow> Inl (OverflowError ''int too large to convert to float'')
           | Some x \<Rightarrow> Inr x)
      | JFloat x \<Rightarrow> Inr x
      | JStr s \<Rightarrow>
          (case float_of_str rt s of
             None \<Rightarrow> Inl (ValueError ''could not convert string to float'')
           | Some x \<Rightarrow> Inr x)
      | JList xs \<Rightarrow> Inl (TypeError ''float() argument must be a string or a real number'')
      | JObj d \<Rightarrow> Inl (TypeError ''float() argument must be a string or a real number''))"

text \<open>
  \<open>try: return float(v)\<close> \<open>except (TypeError, ValueError): return 0.0\<close>: the shape of
  both \<open>try\<close> statements of \<open>_effective_budget\<close>.  Any other exception is not caught.
\<close>

definition float_or_zero :: "'f runtime \<Rightarrow> 'f json \<Rightarrow> exn + 'f" where
  "float_or_zero rt v =
     (case py_float rt v of
        Inr x \<Rightarrow> Inr x
      | Inl (TypeError m) \<Rightarrow> Inr (float_zero rt)
      | Inl (ValueError m) \<Rightarrow> Inr (float_zero rt)
      | Inl e \<Rightarrow> Inl e)"

definition effective_budget :: "'f runtime \<Rightarrow> 'f pydict \<Rightarrow> exn + 'f" where
  "effective_budget rt job =
     (if dict_get job ''jobType'' = JStr ''SWARM'' \<and> dict_get job ''budgetPerAgent'' \<noteq> JNull
      then float_or_zero rt (dict_get job ''budgetPerAgent'')
      else float_or_zero rt (dict_get_default job ''budget'' (JInt 0)))"

text \<open>
  \<open>_load_seen_jobs\<close>.  \<open>loaded_items\<close> are the strings the set comprehension adds, in
  its order: iterating a list gives its items, a dict its keys, a string its
  characters; anything else raises, which is caught.  \<open>initial_runner\<close> is the state
  \<open>__init__\<close> leaves.
\<close>

definition loaded_items :: "('f json \<Rightarrow> string) \<Rightarrow> 'f json option \<Rightarrow> string list" where
  "loaded_items rp file =
     (case file of
        Some (JObj payload) \<Rightarrow>
          (case dict_get_default payload ''seen_jobs'' (JList []) of
             JList jobs \<Rightarrow> map (py_str rp) jobs
           | JObj d \<Rightarrow> map fst d
           | JStr s \<Rightarrow> map (\<lambda>c. [c]) s
           | _ \<Rightarrow> [])
      | _ \<Rightarrow> [])"

definition load_seen_jobs :: "('f json \<Rightarrow> string) \<Rightarrow> 'f json option \<Rightarrow> string set" where
  "load_seen_jobs rp file = set (loaded_items rp file)"

definition initial_runner :: "('f json \<Rightarrow> string) \<Rightarrow> 'f json option \<Rightarrow> 'f runner" where
  "initial_runner rp file =
     \<lparr>seen_jobs = load_seen_jobs rp file,
      insertions = foldl record_insertion [] (loaded_items rp file),
      state_file = file\<rparr>"

text \<open>\<open>xs[-n:]\<close> for a positive \<open>n\<close>.\<close>

definition last_n :: "nat \<Rightarrow> 'a list \<Rightarrow> 'a list" where
  "last_n n xs = drop (length xs - n) xs"

text \<open>
  \<open>_mark_seen\<close>; \<open>list(self._seen_jobs)\<close> is the set in the order of its iteration.
  The file is taken to accept the write.
\<close>

definition mark_seen :: "'f runtime \<Rightarrow> 'f runner \<Rightarrow> string \<Rightarrow> 'f runner" where
  "mark_seen rt st job_id =
     (let seen = insert job_id (seen_jobs st);
          ins = record_insertion (insertions st) job_id;
          trimmed = last_n 1000 (set_order rt ins)
      in \<lparr>seen_jobs = seen,
          insertions = ins,
          state_file = Some (JObj [(''seen_jobs'', JList (map JStr trimmed))])\<rparr>)"

text \<open>The array under \<open>seen_jobs\<close> of the stored document, read back.\<close>

definition persisted :: "'f runner \<Rightarrow> 'f json list" where
  "persisted st =
     (case state_file st of
        Some (JObj d) \<Rightarrow> (case dict_get d ''seen_jobs'' of JList xs \<Rightarrow> xs | _ \<Rightarrow> [])
      | _ \<Rightarrow> [])"

subsection \<open>The submission archive\<close>

text \<open>
  \<open>json.dumps\<close> of a string: every character outside U+0020 to U+007E, the quote and
  the backslash are escaped.
\<close>

definition hex_digit :: "nat \<Rightarrow> char" where
  "hex_digit n = ''0123456789abcdef'' ! n"

definition json_escape_char :: "char \<Rightarrow> string" where
  "json_escape_char c =
     (if c = CHR 0x22 then [CHR 0x5C, CHR 0x22]
      else if c = CHR 0x5C then [CHR 0x5C, CHR 0x5C]
      else if c = CHR 0x0A then [CHR 0x5C, CHR ''n'']
      else if c = CHR 0x0D then [CHR 0x5C, CHR ''r'']
      else if c = CHR 0x09 then [CHR 0x5C, CHR ''t'']
      else if c = CHR 0x08 then [CHR 0x5C, CHR ''b'']
      else if c = CHR 0x0C then [CHR 0x5C, CHR ''f'']
      else if 32 \<le> (of_char c :: nat) \<and> (of_char c :: nat) \<le> 126 then [c]
      else [CHR 0x5C, CHR ''u'', CHR ''0'', CHR ''0'',
            hex_digit (of_char c div 16), hex_digit (of_char c mod 16)])"

definition dumps_str :: "string \<Rightarrow> string" where
  "dumps_str s = CHR 0x22 # concat (map json_escape_char s) @ [CHR 0x22]"

text \<open>\<open>json.dumps(d, indent=2)\<close> of a dict whose values are strings.\<close>

definition dumps_indent2 :: "(string \<times> string) list \<Rightarrow> string" where
  "dumps_indent2 d =
     (if d = [] then ''{}''
      else ''{'' @ [CHR 0x0A] @
           join ('','' @ [CHR 0x0A])
             (map (\<lambda>(k, v). ''  '' @ dumps_str k @ '': '' @ dumps_str v) d) @
           [CHR 0x0A] @ ''}'')"

text \<open>
  \<open>_create_submission_archive\<close>: the members written, as name and text, in the order
  of the three \<open>writestr\<close> calls; \<open>now\<close> is the clock's reading.
\<close>

definition create_submission_archive ::
  "string \<Rightarrow> string \<Rightarrow> string \<Rightarrow> string \<Rightarrow> string \<Rightarrow> (string \<times> string) list" where
  "create_submission_archive job_id prompt answer model_name now =
     (let metadata = [(''job_id'', job_id), (''model'', model_name), (''generated_at_utc'', now)]
      in [(''response.txt'', rstrip answer @ [CHR 0x0A]),
          (''prompt.txt'', rstrip prompt @ [CHR 0x0A]),
          (''metadata.json'', dumps_indent2 metadata)])"

subsection \<open>Processing one job\<close>

definition system_prompt_text :: string where
  "system_prompt_text =
     ''You are an autonomous Seedstr marketplace agent. '' @
     ''Give accurate and concise responses. '' @
     ''If you are unsure, say what assumptions you made.''"

text \<open>
  The body of the \<open>try\<close> of \<open>_process_job\<close> up to, and without, its final \<open>_mark_seen\<close>:
  generation, packaging, upload, response.  \<open>Inl\<close> is the exception that reaches the
  \<open>except Exception\<close> clause.
\<close>

definition submit_job ::
  "'f runtime \<Rightarrow> 'f world \<Rightarrow> LLMFailoverClient \<Rightarrow> 'f call list \<Rightarrow> string \<Rightarrow> string
     \<Rightarrow> (exn + unit) \<times> 'f call list" where
  "submit_job rt w c tr job_id prompt =
     (case generate w c tr prompt system_prompt_text of
        (Inl e, tr1) \<Rightarrow> (Inl e, tr1)
      | (Inr (answer, used_model), tr1) \<Rightarrow>
          (let archive_path = ''seedstr-job-'' @ job_id @ ''-response.zip'';
               members =
                 create_submission_archive job_id prompt answer used_model (now_utc w tr1)
           in case fs_archive w tr1 archive_path members of
                Some e \<Rightarrow> (Inl e, tr1)
              | None \<Rightarrow>
                  (case upload_file w tr1 archive_path (Some (zip_b64 w tr1 members)) of
                     (Inl e, tr2) \<Rightarrow> (Inl e, tr2)
                   | (Inr (JObj upload_result), tr2) \<Rightarrow>
                       (case respond_file (repr rt) w tr2 job_id upload_result answer of
                          (Inl e, tr3) \<Rightarrow> (Inl e, tr3)
                        | (Inr r, tr3) \<Rightarrow> (Inr (), tr3))
                   | (Inr other, tr2) \<Rightarrow>
                       (Inl (AttributeError ''object has no attribute get''), tr2))))"

text \<open>\<open>_process_job\<close> from the prompt check on.\<close>

definition process_prompt ::
  "'f runtime \<Rightarrow> 'f world \<Rightarrow> LLMFailoverClient \<Rightarrow> 'f runner \<Rightarrow> 'f call list \<Rightarrow> 'f pydict
     \<Rightarrow> string \<Rightarrow> exn option \<times> 'f runner \<times> 'f call list" where
  "process_prompt rt w c st tr job job_id =
     (let prompt = strip (py_str (repr rt) (dict_get_default job ''prompt'' (JStr [])))
      in if prompt = [] then (None, mark_seen rt st job_id, tr)
         else
           (case submit_job rt w c tr job_id prompt of
              (Inr u, tr') \<Rightarrow> (None, mark_seen rt st job_id, tr')
            | (Inl e, tr') \<Rightarrow> (None, st, tr')))"

text \<open>
  \<open>_process_job\<close>: the exception that leaves it, if any, the runner's state and the
  trace afterwards.
\<close>

definition process_job ::
  "'f runtime \<Rightarrow> 'f world \<Rightarrow> 'f settings \<Rightarrow> LLMFailoverClient \<Rightarrow> 'f runner \<Rightarrow> 'f call list
     \<Rightarrow> 'f pydict \<Rightarrow> exn option \<times> 'f runner \<times> 'f call list" where
  "process_job rt w cfg c st tr job =
     (let job_id = py_str (repr rt) (dict_get_default job ''id'' (JStr []))
      in if job_id = [] then (None, st, tr)
         else if job_id \<in> seen_jobs st then (None, st, tr)
         else
           (case effective_budget rt job of
              Inl e \<Rightarrow> (Some e, st, tr)
            | Inr budget \<Rightarrow>
                if float_less rt budget (min_budget_usd cfg)
                then (None, mark_seen rt st job_id, tr)
                else if py_str (repr rt) (dict_get_default job ''jobType'' (JStr ''STANDARD''))
                          = ''SWARM''
                then
                  (case accept_job w tr job_id of
                     (Inl (SeedstrApiError m), tr') \<Rightarrow> (None, mark_seen rt st job_id, tr')
                   | (Inl e, tr') \<Rightarrow> (Some e, st, tr')
                   | (Inr a, tr') \<Rightarrow> process_prompt rt w c st tr' job job_id)
                else process_prompt rt w c st tr job job_id))"

subsection \<open>Notions used to state the properties of \<open>_process_job\<close>\<close>

text \<open>
  The job's id, trimmed prompt and type as \<open>_process_job\<close> reads them; whether the
  effective budget is below, or not below, the configured minimum; whether the accept
  request of a SWARM job ended in the \<open>SeedstrApiError\<close> that is caught, or returned;
  the trace when the prompt is checked; how the body of the final \<open>try\<close> ends; whether
  that body is reached; and the four outcomes after which the job is marked.
\<close>

definition job_id_of :: "'f runtime \<Rightarrow> 'f pydict \<Rightarrow> string" where
  "job_id_of rt job = py_str (repr rt) (dict_get_default job ''id'' (JStr []))"

definition prompt_of :: "'f runtime \<Rightarrow> 'f pydict \<Rightarrow> string" where
  "prompt_of rt job = strip (py_str (repr rt) (dict_get_default job ''prompt'' (JStr [])))"

definition is_swarm :: "'f runtime \<Rightarrow> 'f pydict \<Rightarrow> bool" where
  "is_swarm rt job =
     (py_str (repr rt) (dict_get_default job ''jobType'' (JStr ''STANDARD'')) = ''SWARM'')"

definition under_budget :: "'f runtime \<Rightarrow> 'f settings \<Rightarrow> 'f pydict \<Rightarrow> bool" where
  "under_budget rt cfg job =
     (case effective_budget rt job of
        Inr budget \<Rightarrow> float_less rt budget (min_budget_usd cfg)
      | Inl e \<Rightarrow> False)"

definition budget_ok :: "'f runtime \<Rightarrow> 'f settings \<Rightarrow> 'f pydict \<Rightarrow> bool" where
  "budget_ok rt cfg job =
     (case effective_budget rt job of
        Inr budget \<Rightarrow> \<not> float_less rt budget (min_budget_usd cfg)
      | Inl e \<Rightarrow> False)"

definition accept_failed :: "'f runtime \<Rightarrow> 'f world \<Rightarrow> 'f call list \<Rightarrow> 'f pydict \<Rightarrow> bool" where
  "accept_failed rt w tr job =
     (is_swarm rt job \<and> is_api_error (fst (accept_job w tr (job_id_of rt job))))"

definition accepted :: "'f runtime \<Rightarrow> 'f world \<Rightarrow> 'f call list \<Rightarrow> 'f pydict \<Rightarrow> bool" where
  "accepted rt w tr job =
     (if is_swarm rt job
      then (case fst (accept_job w tr (job_id_of rt job)) of Inr a \<Rightarrow> True | Inl e \<Rightarrow> False)
      else True)"

definition trace_at_prompt :: "'f runtime \<Rightarrow> 'f world \<Rightarrow> 'f call list \<Rightarrow> 'f pydict \<Rightarrow> 'f call list" where
  "trace_at_prompt rt w tr job =
     (if is_swarm rt job then snd (accept_job w tr (job_id_of rt job)) else tr)"

definition submission ::
  "'f runtime \<Rightarrow> 'f world \<Rightarrow> LLMFailoverClient \<Rightarrow> 'f call list \<Rightarrow> 'f pydict \<Rightarrow> exn + unit" where
  "submission rt w c tr job =
     fst (submit_job rt w c (trace_at_prompt rt w tr job) (job_id_of rt job) (prompt_of rt job))"

definition reaches_submission ::
  "'f runtime \<Rightarrow> 'f world \<Rightarrow> 'f settings \<Rightarrow> 'f call list \<Rightarrow> 'f pydict \<Rightarrow> bool" where
  "reaches_submission rt w cfg tr job =
     (budget_ok rt cfg job \<and> accepted rt w tr job \<and> prompt_of rt job \<noteq> [])"

definition marked_outcome ::
  "'f runtime \<Rightarrow> 'f world \<Rightarrow> 'f settings \<Rightarrow> LLMFailoverClient \<Rightarrow> 'f call list \<Rightarrow> 'f pydict
     \<Rightarrow> bool" where
  "marked_outcome rt w cfg c tr job =
     (under_budget rt cfg job \<or>
      (budget_ok rt cfg job \<and> accept_failed rt w tr job) \<or>
      (budget_ok rt cfg job \<and> accepted rt w tr job \<and> prompt_of rt job = []) \<or>
      (reaches_submission rt w cfg tr job \<and> submission rt w c tr job = Inr ()))"

text \<open>Marking a sequence of job ids, one \<open>_mark_seen\<close> after the other.\<close>

definition mark_all :: "'f runtime \<Rightarrow> 'f runner \<Rightarrow> string list \<Rightarrow> 'f runner" where
  "mark_all rt st ids = foldl (mark_seen rt) st ids"

subsection \<open>Reading the metadata back\<close>

text \<open>
  \<open>json.loads\<close>, for documents that are one object whose values are strings: the
  scanner of a string literal after its opening quote (strict: a control character
  ends the scan with an error), the members of an object, and the document between
  optional white space.  On any other document, and on an escape \<open>\u\<close> of a code
  point above U+00FF, the result here is \<open>None\<close>.
\<close>

definition hex_val :: "char \<Rightarrow> nat option" where
  "hex_val c =
     (let n = (of_char c :: nat)
      in if 48 \<le> n \<and> n \<le> 57 then Some (n - 48)
         else if 97 \<le> n \<and> n \<le> 102 then Some (n - 87)
         else if 65 \<le> n \<and> n \<le> 70 then Some (n - 55)
         else None)"

definition simple_escape :: "char \<Rightarrow> char option" where
  "simple_escape e =
     (if e = CHR 0x22 then Some (CHR 0x22)
      else if e = CHR 0x5C then Some (CHR 0x5C)
      else if e = CHR ''/'' then Some (CHR ''/'')
      else if e = CHR ''b'' then Some (CHR 0x08)
      else if e = CHR ''f'' then Some (CHR 0x0C)
      else if e = CHR ''n'' then Some (CHR 0x0A)
      else if e = CHR ''r'' then Some (CHR 0x0D)
      else if e = CHR ''t'' then Some (CHR 0x09)
      else None)"

definition cons_result :: "char \<Rightarrow> (string \<times> string) option \<Rightarrow> (string \<times> string) option" where
  "cons_result c r = (case r of None \<Rightarrow> None | Some (s, rest) \<Rightarrow> Some (c # s, rest))"

fun scan_string :: "string \<Rightarrow> (string \<times> string) option" where
  "scan_string [] = None"
| "scan_string (c # cs) =
     (if c = CHR 0x22 then Some ([], cs)
      else if c = CHR 0x5C then
        (case cs of
           [] \<Rightarrow> None
         | e # cs' \<Rightarrow>
             if e = CHR ''u'' then
               (case cs' of
                  h1 # h2 # h3 # h4 # cs'' \<Rightarrow>
                    (case (hex_val h1, hex_val h2, hex_val h3, hex_val h4) of
                       (Some a, Some b, Some c', Some d) \<Rightarrow>
                         (let n = ((a * 16 + b) * 16 + c') * 16 + d
                          in if n < 256 then cons_result (char_of n) (scan_string cs'') else None)
                     | _ \<Rightarrow> None)
                | _ \<Rightarrow> None)
             else
               (case simple_escape e of
                  None \<Rightarrow> None
                | Some ch \<Rightarrow> cons_result ch (scan_string cs')))
      else if (of_char c :: nat) < 32 then None
      else cons_result c (scan_string cs))"


definition json_ws :: "char \<Rightarrow> bool" where
  "json_ws c = (c = CHR '' '' \<or> c = CHR 0x09 \<or> c = CHR 0x0A \<or> c = CHR 0x0D)"

definition skip_ws :: "string \<Rightarrow> string" where
  "skip_ws s = dropWhile json_ws s"

lemma scan_string_shorter:
  "scan_string s = Some (t, rest) \<Longrightarrow> length rest < length s"
proof (induction s arbitrary: t rest rule: scan_string.induct)
  case 1
  then show ?case by simp
next
  case (2 c cs)
  then show ?case
    by (auto simp: cons_result_def Let_def split: if_splits list.splits option.splits prod.splits)
       fastforce+
qed

lemma skip_ws_length: "length (skip_ws s) \<le> length s"
  by (simp add: skip_ws_def length_dropWhile_le)

function parse_pairs :: "string \<Rightarrow> ((string \<times> string) list \<times> string) option" where
  "parse_pairs s =
     (case s of
        [] \<Rightarrow> None
      | q # r \<Rightarrow>
          if q \<noteq> CHR 0x22 then None
          else
            (case scan_string r of
               None \<Rightarrow> None
             | Some (k, r1) \<Rightarrow>
                 (case skip_ws r1 of
                    [] \<Rightarrow> None
                  | colon # r2 \<Rightarrow>
                      if colon \<noteq> CHR '':'' then None
                      else
                        (case skip_ws r2 of
                           [] \<Rightarrow> None
                         | q2 # r3 \<Rightarrow>
                             if q2 \<noteq> CHR 0x22 then None
                             else
                               (case scan_string r3 of
                                  None \<Rightarrow> None
                                | Some (v, r4) \<Rightarrow>
                                    (case skip_ws r4 of
                                       [] \<Rightarrow> None
                                     | d # r5 \<Rightarrow>
                                         if d = CHR '','' then
                                           (case parse_pairs (skip_ws r5) of
                                              None \<Rightarrow> None
                                            | Some (kvs, rest) \<Rightarrow> Some ((k, v) # kvs, rest))
                                         else if d = CHR ''}'' then Some ([(k, v)], r5)
                                         else None))))))"
  by pat_completeness auto
termination
proof (relation "measure length", goal_cases)
  case 1
  then show ?case by simp
next
  case (2 s q r x2 k r1 colon r2 q2 r3 x2a v r4 d r5)
  have a: "length r1 < length r" using 2 scan_string_shorter by metis
  have b: "length r2 < length r1"
    using skip_ws_length [of r1] 2 by (metis impossible_Cons linorder_not_le order_trans)
  have c: "length r3 < length r2"
    using skip_ws_length [of r2] 2 by (metis impossible_Cons linorder_not_le order_trans)
  have d: "length r4 < length r3" using 2 scan_string_shorter by metis
  have e: "length r5 < length r4"
    using skip_ws_length [of r4] 2 by (metis impossible_Cons linorder_not_le order_trans)
  have "length (skip_ws r5) \<le> length r5" by (rule skip_ws_length)
  with a b c d e 2 show ?case by simp
qed

definition json_loads_object :: "string \<Rightarrow> (string \<times> string) list option" where
  "json_loads_object text =
     (case skip_ws text of
        [] \<Rightarrow> None
      | b # r \<Rightarrow>
          if b \<noteq> CHR ''{'' then None
          else
            (case skip_ws r of
               [] \<Rightarrow> None
             | e # r' \<Rightarrow>
                 if e = CHR ''}'' then (if skip_ws r' = [] then Some [] else None)
                 else
                   (case parse_pairs (skip_ws r) of
                      None \<Rightarrow> None
                    | Some (kvs, rest) \<Rightarrow> if skip_ws rest = [] then Some kvs else None)))"

text \<open>One member as \<open>dumps_indent2\<close> prints it.\<close>

definition dumps_item :: "string \<times> string \<Rightarrow> string" where
  "dumps_item kv = ''  '' @ dumps_str (fst kv) @ '': '' @ dumps_str (snd kv)"

section \<open>Sample environments\<close>

text \<open>
  Concrete environments on which the theorems below are instantiated: the Gemini
  call always raises, the OpenAI model \<open>o1\<close> answers with blanks and every other
  OpenAI model with a text; the marketplace answers by the function \<open>h\<close>.  Floats are
  rational numbers here.
\<close>

definition demo_world ::
  "(rat call list \<Rightarrow> string \<Rightarrow> string \<Rightarrow> rat json option \<Rightarrow> exn + rat json) \<Rightarrow> rat world" where
  "demo_world h =
     \<lparr>http = h,
      gemini_sdk = (\<lambda>tr m p. Inl (OtherException ''gemini down'')),
      openai_sdk = (\<lambda>tr m s p. if m = ''o1'' then Inr (Some ''  '') else Inr (Some '' final '')),
      fs_archive = (\<lambda>tr name members. None),
      zip_b64 = (\<lambda>tr members. ''UEsDBA==''),
      now_utc = (\<lambda>tr. ''2026-01-01T00:00:00+00:00''),
      guess_mime = (\<lambda>name. Some ''application/zip'')\<rparr>"

definition always_ok :: "rat call list \<Rightarrow> string \<Rightarrow> string \<Rightarrow> rat json option \<Rightarrow> exn + rat json" where
  "always_ok tr method endpoint payload = Inr (JObj [(''ok'', JBool True)])"

definition always_fail :: "rat call list \<Rightarrow> string \<Rightarrow> string \<Rightarrow> rat json option \<Rightarrow> exn + rat json" where
  "always_fail tr method endpoint payload = Inl (SeedstrApiError ''nope'')"

definition first_fails :: "rat call list \<Rightarrow> string \<Rightarrow> string \<Rightarrow> rat json option \<Rightarrow> exn + rat json" where
  "first_fails tr method endpoint payload =
     (if tr = [] then Inl (SeedstrApiError ''first failed'') else Inr (JObj [(''ok'', JBool True)]))"

text \<open>A transport that is down, and one that fails after seven rejected requests.\<close>

definition transport_down ::
  "rat call list \<Rightarrow> string \<Rightarrow> string \<Rightarrow> rat json option \<Rightarrow> exn + rat json" where
  "transport_down tr method endpoint payload = Inl (OtherException ''connection refused'')"

definition transport_last ::
  "rat call list \<Rightarrow> string \<Rightarrow> string \<Rightarrow> rat json option \<Rightarrow> exn + rat json" where
  "transport_last tr method endpoint payload =
     (if length tr < 7 then Inl (SeedstrApiError ''rejected'')
      else Inl (OtherException ''connection refused''))"

definition demo_client :: LLMFailoverClient where
  "demo_client =
     \<lparr>targets = [target ''gemini'' ''g1'', target ''openai'' ''o1'', target ''openai'' ''o2'',
                  target ''openai'' ''o3''],
      gemini_enabled = True, openai_enabled = True, openai_client = True\<rparr>"

definition demo_failing_client :: LLMFailoverClient where
  "demo_failing_client =
     \<lparr>targets = [target ''gemini'' ''g1'', target ''openai'' ''o1''],
      gemini_enabled = True, openai_enabled = True, openai_client = True\<rparr>"

definition demo_upload_result :: "rat pydict" where
  "demo_upload_result =
     [(''files'', JList [JObj [(''url'', JStr ''https://cdn.example/file.zip'')]])]"

text \<open>
  A sample runtime: floats are rationals, integers convert exactly, a string converts
  when it is a non-empty sequence of decimal digits, and a set is iterated in
  lexicographic order of its elements, whatever the order of insertion.
\<close>

definition is_digit :: "char \<Rightarrow> bool" where
  "is_digit c = (48 \<le> (of_char c :: nat) \<and> (of_char c :: nat) \<le> 57)"

definition demo_runtime :: "rat runtime" where
  "demo_runtime =
     \<lparr>float_of_int = (\<lambda>i. Some (of_int i)),
      float_of_str = (\<lambda>s. if s \<noteq> [] \<and> list_all is_digit s
                          then Some (of_nat (foldl (\<lambda>n c. 10 * n + (of_char c - 48)) 0 s))
                          else None),
      float_zero = 0,
      float_less = (<),
      repr = (\<lambda>v. ''<repr>''),
      set_order = (\<lambda>ins. sorted_list_of_set (set ins))\<rparr>"

definition swarm_job :: "rat pydict" where
  "swarm_job = [(''id'', JStr ''3''), (''jobType'', JStr ''SWARM''), (''budgetPerAgent'', JFloat 3),
     (''prompt'', JStr ''swarm task'')]"

definition demo_settings :: "rat settings" where
  "demo_settings = \<lparr>min_budget_usd = 1\<rparr>"

definition empty_runner :: "rat runner" where
  "empty_runner = \<lparr>seen_jobs = {}, insertions = [], state_file = None\<rparr>"

text \<open>1001 distinct job ids: \<open>j\<close>, \<open>jj\<close>, \<open>jjj\<close>, and so on.\<close>

definition many_ids :: "string list" where
  "many_ids = map (\<lambda>n. replicate (Suc n) (CHR ''j'')) [0..<1001]"

definition cheap_job :: "rat pydict" where
  "cheap_job = [(''id'', JStr ''1''), (''budget'', JFloat (1 / 10)), (''prompt'', JStr ''ignored'')]"

definition standard_job :: "rat pydict" where
  "standard_job = [(''id'', JStr ''2''), (''budget'', JFloat 2), (''prompt'', JStr ''solve this'')]"


section \<open>Properties of the model failover client\<close>

text \<open>
  C9.  Constructing the client raises exactly when neither provider is enabled.
  Otherwise it succeeds, and the target list is the Gemini models in configured
  order (when Gemini is enabled) followed by the OpenAI models in configured order
  (when OpenAI is enabled).
\<close>

theorem llm_init_targets:
  "llm_init gk ok gms oms =
     (if \<not> provider_enabled gk gms \<and> \<not> provider_enabled ok oms
      then Inl (ValueError
        ''No LLM models configured. Set GEMINI_API_KEY/OPENAI_API_KEY with model lists.'')
      else Inr \<lparr>targets =
                   (if provider_enabled gk gms then map (target ''gemini'') gms else []) @
                   (if provider_enabled ok oms then map (target ''openai'') oms else []),
                 gemini_enabled = provider_enabled gk gms,
                 openai_enabled = provider_enabled ok oms,
                 openai_client = provider_enabled ok oms\<rparr>)"
  by (simp add: llm_init_def provider_enabled_def Let_def)

subsection \<open>The loop of \<open>generate\<close>\<close>

lemma snd_call_target:
  "snd (call_target w c p sp tr t) = tr @ target_calls c p sp t"
  by (auto simp: call_target_def target_calls_def generate_gemini_def generate_openai_def Let_def
      split: sum.splits option.splits)

lemma trace_after_calls:
  "trace_after w c p sp tr ts = tr @ concat (map (target_calls c p sp) ts)"
  by (induction ts arbitrary: tr) (simp_all add: trace_after_def snd_call_target)

lemma trace_after_Cons:
  "trace_after w c p sp tr (t # ts) = trace_after w c p sp (snd (call_target w c p sp tr t)) ts"
  by (simp add: trace_after_def)

lemma outcome_at_0: "outcome_at w c p sp tr (t # ts) 0 = fst (call_target w c p sp tr t)"
  by (simp add: outcome_at_def trace_after_def)

lemma outcome_at_Suc:
  "outcome_at w c p sp tr (t # ts) (Suc i) =
     outcome_at w c p sp (snd (call_target w c p sp tr t)) ts i"
  by (simp add: outcome_at_def trace_after_def)

lemma failure_reasons_Cons:
  "failure_reasons w c p sp tr (t # ts) =
     failure_reason t (fst (call_target w c p sp tr t)) #
     failure_reasons w c p sp (snd (call_target w c p sp tr t)) ts"
proof -
  have "[0..<length (t # ts)] = 0 # map Suc [0..<length ts]"
    by (simp add: upt_conv_Cons map_Suc_upt del: upt_Suc)
  then show ?thesis
    by (simp add: failure_reasons_def outcome_at_0 outcome_at_Suc comp_def del: upt_Suc)
qed

text \<open>
  While the targets fail the loop goes on: it reaches the rest of the list with one
  reason recorded per failed target and with the calls of the failed targets made.
\<close>

lemma generate_loop_skip:
  assumes "\<forall>i<length pre. target_fails (outcome_at w c p sp tr pre i)"
  shows "generate_loop w c p sp (pre @ rest) errors tr =
           generate_loop w c p sp rest (errors @ failure_reasons w c p sp tr pre)
             (trace_after w c p sp tr pre)"
  using assms
proof (induction pre arbitrary: errors tr)
  case Nil
  then show ?case by (simp add: failure_reasons_def trace_after_def)
next
  case (Cons t pre)
  obtain r tr' where r: "call_target w c p sp tr t = (r, tr')"
    by (cases "call_target w c p sp tr t")
  from Cons.prems have "target_fails (outcome_at w c p sp tr (t # pre) 0)" by blast
  with r have f: "target_fails r" by (simp add: outcome_at_0)
  have rest: "\<forall>i<length pre. target_fails (outcome_at w c p sp tr' pre i)"
  proof (intro allI impI)
    fix i assume "i < length pre"
    with Cons.prems have "target_fails (outcome_at w c p sp tr (t # pre) (Suc i))" by auto
    with r show "target_fails (outcome_at w c p sp tr' pre i)" by (simp add: outcome_at_Suc)
  qed
  have step: "generate_loop w c p sp ((t # pre) @ rest) errors tr =
      generate_loop w c p sp (pre @ rest) (errors @ [failure_reason t r]) tr'"
    using r f by (cases r) (simp_all add: target_fails_def failure_reason_def label_def)
  show ?case
    unfolding step Cons.IH [OF rest]
    using r by (simp add: failure_reasons_Cons trace_after_Cons)
qed

text \<open>
  C2.  When the targets before \<open>t\<close> all fail (the provider call raises, or the text
  is empty after trimming) and \<open>t\<close> answers with a text that is not empty after
  trimming, \<open>generate\<close> returns the trimmed text with the label
  \<open>provider:model\<close> of \<open>t\<close>, and the calls made are those of the failed targets and
  of \<open>t\<close>, in order: the targets after \<open>t\<close> are not called.
\<close>

theorem generate_first_success:
  assumes "targets c = pre @ t # post"
    and "\<forall>i<length pre. target_fails (outcome_at w c prompt sp tr pre i)"
    and "fst (call_target w c prompt sp (trace_after w c prompt sp tr pre) t) = Inr text"
    and "strip text \<noteq> []"
  shows "generate w c tr prompt sp =
           (Inr (strip text, provider t @ '':'' @ model t),
            tr @ concat (map (target_calls c prompt sp) (pre @ [t])))"
proof -
  obtain tr' where
    ct: "call_target w c prompt sp (trace_after w c prompt sp tr pre) t = (Inr text, tr')"
    using assms(3) by (cases "call_target w c prompt sp (trace_after w c prompt sp tr pre) t") simp
  have tr': "tr' = trace_after w c prompt sp tr pre @ target_calls c prompt sp t"
    using snd_call_target [of w c prompt sp "trace_after w c prompt sp tr pre" t] ct by simp
  have "generate w c tr prompt sp =
      generate_loop w c prompt sp (t # post) ([] @ failure_reasons w c prompt sp tr pre)
        (trace_after w c prompt sp tr pre)"
    unfolding generate_def assms(1) by (rule generate_loop_skip [OF assms(2)])
  also have "\<dots> = (Inr (strip text, label t), tr')"
    using ct assms(4) by simp
  finally show ?thesis
    by (simp add: tr' trace_after_calls label_def)
qed

theorem generate_first_success_witness:
  "generate (demo_world always_ok) demo_client [] ''hello'' ''system'' =
     (Inr (''final'', ''openai:o2''),
      [GeminiGenerate ''g1'' (gemini_full_prompt ''hello'' ''system''),
       OpenAIChat ''o1'' ''system'' ''hello'',
       OpenAIChat ''o2'' ''system'' ''hello''])"
proof -
  let ?w = "demo_world always_ok"
  let ?pre = "[target ''gemini'' ''g1'', target ''openai'' ''o1'']"
  have 1: "targets demo_client = ?pre @ target ''openai'' ''o2'' # [target ''openai'' ''o3'']"
    by (simp add: demo_client_def)
  have 2: "\<forall>i<length ?pre. target_fails (outcome_at ?w demo_client ''hello'' ''system'' [] ?pre i)"
    by (simp add: All_less_Suc outcome_at_def trace_after_def call_target_def target_def
        generate_gemini_def generate_openai_def demo_world_def demo_client_def target_fails_def
        strip_def lstrip_def rstrip_def py_isspace_def Let_def)
  have 3: "fst (call_target ?w demo_client ''hello'' ''system''
             (trace_after ?w demo_client ''hello'' ''system'' [] ?pre)
             (target ''openai'' ''o2'')) = Inr '' final ''"
    by (simp add: call_target_def target_def generate_openai_def demo_world_def
        demo_client_def Let_def)
  have 4: "strip '' final '' \<noteq> []"
    by (simp add: strip_def lstrip_def rstrip_def py_isspace_def)
  show ?thesis
    using generate_first_success [OF 1 2 3 4]
    by (simp add: target_calls_def target_def demo_client_def strip_def lstrip_def rstrip_def
        py_isspace_def)
qed

text \<open>
  C3.  When every target of the list fails, \<open>generate\<close> raises a \<open>RuntimeError\<close> whose
  message is a fixed prefix followed by the failure reasons of all targets, in the
  order of the attempts, joined with \<open>" | "\<close>; every target has been called.
\<close>

theorem generate_exhausted:
  assumes "\<forall>i<length (targets c). target_fails (outcome_at w c prompt sp tr (targets c) i)"
  shows "generate w c tr prompt sp =
           (Inl (RuntimeError (''All configured models failed. '' @
                   join '' | '' (failure_reasons w c prompt sp tr (targets c)))),
            tr @ concat (map (target_calls c prompt sp) (targets c)))"
  using generate_loop_skip [OF assms, of "[]" "[]"]
  by (simp add: generate_def trace_after_calls)

theorem generate_exhausted_witness:
  "generate (demo_world always_ok) demo_failing_client [] ''x'' ''y'' =
     (Inl (RuntimeError
        ''All configured models failed. gemini:g1 failed: gemini down | openai:o1 returned empty output''),
      [GeminiGenerate ''g1'' (gemini_full_prompt ''x'' ''y''), OpenAIChat ''o1'' ''y'' ''x''])"
proof -
  let ?w = "demo_world always_ok"
  have 1: "\<forall>i<length (targets demo_failing_client).
      target_fails (outcome_at ?w demo_failing_client ''x'' ''y'' [] (targets demo_failing_client) i)"
    by (simp add: All_less_Suc outcome_at_def trace_after_def call_target_def target_def
        generate_gemini_def generate_openai_def demo_world_def demo_failing_client_def
        target_fails_def strip_def lstrip_def rstrip_def py_isspace_def Let_def)
  show ?thesis
    using generate_exhausted [OF 1]
    by (simp add: failure_reasons_def failure_reason_def outcome_at_def trace_after_def
        call_target_def target_def generate_gemini_def generate_openai_def demo_world_def
        demo_failing_client_def target_calls_def Let_def upt_conv_Cons del: upt_Suc)
qed

section \<open>Properties of the marketplace client\<close>

lemma foldl_ref_attempts:
  "foldl (\<lambda>attempts ref. attempts @ ref_attempts ref) acc refs = acc @ concat (map ref_attempts refs)"
  by (induction refs arbitrary: acc) simp_all

lemma respond_attempts_shape:
  "respond_attempts rp u fb =
     file_attempts (extract_upload_file_candidates u) @
     concat (map ref_attempts (extract_upload_reference_strings rp u)) @
     [text_attempt fb]"
  by (cases "extract_upload_file_candidates u")
     (simp_all add: respond_attempts_def file_attempts_def text_attempt_def foldl_ref_attempts Let_def)

lemma reply_at_0: "reply_at w tr ep (p # ps) 0 = http w tr ''POST'' ep (Some p)"
  by (simp add: reply_at_def)

lemma reply_at_Suc: "reply_at w tr ep (p # ps) (Suc i) = reply_at w (tr @ [post_call ep p]) ep ps i"
  by (simp add: reply_at_def)

lemma try_attempts_api_error:
  assumes "http w tr ''POST'' ep (Some p) = Inl (SeedstrApiError m)"
  shows "try_attempts w job ep (p # ps) le tr =
           try_attempts w job ep ps (Some m) (tr @ [post_call ep p])"
  using assms by (simp add: request_def post_call_def)

lemma try_attempts_stop:
  assumes "\<not> is_api_error (http w tr ''POST'' ep (Some p))"
  shows "try_attempts w job ep (p # ps) le tr =
           (http w tr ''POST'' ep (Some p), tr @ [post_call ep p])"
  using assms
  by (auto simp: request_def post_call_def is_api_error_def split: sum.splits exn.splits)

lemma is_api_errorE:
  assumes "is_api_error r"
  obtains m where "r = Inl (SeedstrApiError m)"
  using assms by (auto simp: is_api_error_def split: sum.splits exn.splits)

text \<open>
  While the requests end in a \<open>SeedstrApiError\<close> the loop goes on, remembering the
  text of the last one.
\<close>

lemma try_attempts_skip:
  assumes "\<forall>i<length pre. is_api_error (reply_at w tr ep (pre @ rest) i)"
  shows "try_attempts w job ep (pre @ rest) le tr =
           try_attempts w job ep rest
             (if pre = [] then le
              else Some (error_text (reply_at w tr ep (pre @ rest) (length pre - 1))))
             (tr @ map (post_call ep) pre)"
  using assms
proof (induction pre arbitrary: le tr)
  case Nil
  then show ?case by simp
next
  case (Cons p pre)
  from Cons.prems have "is_api_error (reply_at w tr ep ((p # pre) @ rest) 0)" by blast
  then obtain m where m: "http w tr ''POST'' ep (Some p) = Inl (SeedstrApiError m)"
    by (auto simp: reply_at_0 elim: is_api_errorE)
  have rest: "\<forall>i<length pre. is_api_error (reply_at w (tr @ [post_call ep p]) ep (pre @ rest) i)"
  proof (intro allI impI)
    fix i assume "i < length pre"
    with Cons.prems have "is_api_error (reply_at w tr ep ((p # pre) @ rest) (Suc i))" by auto
    then show "is_api_error (reply_at w (tr @ [post_call ep p]) ep (pre @ rest) i)"
      by (simp add: reply_at_Suc)
  qed
  have "try_attempts w job ep ((p # pre) @ rest) le tr =
        try_attempts w job ep (pre @ rest) (Some m) (tr @ [post_call ep p])"
    using try_attempts_api_error [OF m] by simp
  also have "\<dots> = try_attempts w job ep rest
             (if pre = [] then Some m
              else Some (error_text
                     (reply_at w (tr @ [post_call ep p]) ep (pre @ rest) (length pre - 1))))
             ((tr @ [post_call ep p]) @ map (post_call ep) pre)"
    by (rule Cons.IH [OF rest])
  also have "\<dots> = try_attempts w job ep rest
             (Some (error_text (reply_at w tr ep ((p # pre) @ rest) (length (p # pre) - 1))))
             (tr @ map (post_call ep) (p # pre))"
  proof (cases pre)
    case Nil
    then show ?thesis using m by (simp add: reply_at_0 error_text_def)
  next
    case (Cons q qs)
    then show ?thesis using reply_at_Suc [of w tr ep p "pre @ rest" "length qs"] by simp
  qed
  finally show ?case by simp
qed

text \<open>
  C1, as stated, fails where a request raises something that is not a
  \<open>SeedstrApiError\<close> (\<open>_request\<close> does not wrap what the transport raises).  With the
  transport down, the first request is the only one made: none of the other seven
  payloads is sent, the text fallback included.  And when seven requests are rejected
  and the eighth, the text fallback, meets a transport error, every attempt has raised,
  yet what \<open>respond_file\<close> raises is the transport's exception, unwrapped.
\<close>

theorem respond_file_transport_counterexample:
  "length (respond_attempts (\<lambda>v. []) demo_upload_result ''fallback'') = 8 \<and>
   respond_file (\<lambda>v. []) (demo_world transport_down) [] ''job-1'' demo_upload_result ''fallback'' =
     (Inl (OtherException ''connection refused''),
      [HttpRequest ''POST'' ''/jobs/job-1/respond''
         (Some (JObj [(''responseType'', JStr ''FILE''),
                      (''files'', JList [JObj [(''url'', JStr ''https://cdn.example/file.zip'')]])]))]) \<and>
   fst (respond_file (\<lambda>v. []) (demo_world transport_last) [] ''job-1'' demo_upload_result
          ''fallback'') = Inl (OtherException ''connection refused'') \<and>
   length (snd (respond_file (\<lambda>v. []) (demo_world transport_last) [] ''job-1'' demo_upload_result
          ''fallback'')) = 8"
  by (simp add: respond_file_def respond_attempts_def extract_upload_file_candidates_def
      demo_upload_result_def dict_get_def dict_get_default_def List.map_filter_simps
      extract_upload_reference_strings_def add_refs_of_def add_ref_def ref_keys_def
      ref_attempts_def strip_def lstrip_def rstrip_def py_isspace_def request_def
      demo_world_def transport_down_def transport_last_def Let_def)

text \<open>
  C1, amended.  The attempts of \<open>respond_file\<close> are, in this order: when file
  descriptors were extracted, one payload with them as a list and, when there is
  exactly one, one payload with it as a single object; for each extracted reference
  string in order, the five payloads \<open>content\<close>, \<open>fileUrl\<close>, \<open>url\<close>, one-element
  \<open>attachments\<close> and one-element \<open>files\<close> of \<open>{url: ref}\<close>; last the plain-text payload
  with the fallback text.  If the first \<open>k\<close> requests raise \<open>SeedstrApiError\<close> and
  request \<open>k\<close> does not, \<open>respond_file\<close> ends as request \<open>k\<close> does, with its result or
  with the other exception it raised, unwrapped, after exactly the requests \<open>0\<close> to \<open>k\<close>:
  no later attempt is made.  If all requests raise \<open>SeedstrApiError\<close>, it raises a
  \<open>SeedstrApiError\<close> that names the job and carries the text of the last error.
\<close>

theorem respond_file_order:
  assumes "attempts = respond_attempts rp u fb"
    and "k \<le> length attempts"
    and "\<forall>i<k. is_api_error (reply_at w tr (respond_endpoint job_id) attempts i)"
    and "k < length attempts \<longrightarrow>
           \<not> is_api_error (reply_at w tr (respond_endpoint job_id) attempts k)"
  shows "attempts =
           file_attempts (extract_upload_file_candidates u) @
           concat (map (\<lambda>ref.
               [JObj [(''responseType'', JStr ''FILE''), (''content'', JStr ref)],
                JObj [(''responseType'', JStr ''FILE''), (''fileUrl'', JStr ref)],
                JObj [(''responseType'', JStr ''FILE''), (''url'', JStr ref)],
                JObj [(''responseType'', JStr ''FILE''), (''attachments'', JList [JStr ref])],
                JObj [(''responseType'', JStr ''FILE''),
                      (''files'', JList [JObj [(''url'', JStr ref)]])]])
             (extract_upload_reference_strings rp u)) @
           [JObj [(''responseType'', JStr ''TEXT''), (''content'', JStr fb)]] \<and>
         respond_file rp w tr job_id u fb =
           (if k < length attempts
            then (reply_at w tr (respond_endpoint job_id) attempts k,
                  tr @ map (post_call (respond_endpoint job_id)) (take (Suc k) attempts))
            else (Inl (SeedstrApiError
                    (''Failed to submit file response for job '' @ job_id @ '': '' @
                     error_text (reply_at w tr (respond_endpoint job_id) attempts
                                   (length attempts - 1)))),
                  tr @ map (post_call (respond_endpoint job_id)) attempts))"
proof -
  let ?ep = "respond_endpoint job_id"
  have five: "ref_attempts = (\<lambda>ref.
               [JObj [(''responseType'', JStr ''FILE''), (''content'', JStr ref)],
                JObj [(''responseType'', JStr ''FILE''), (''fileUrl'', JStr ref)],
                JObj [(''responseType'', JStr ''FILE''), (''url'', JStr ref)],
                JObj [(''responseType'', JStr ''FILE''), (''attachments'', JList [JStr ref])],
                JObj [(''responseType'', JStr ''FILE''),
                      (''files'', JList [JObj [(''url'', JStr ref)]])]] :: 'a json list)"
    by (rule ext) (simp add: ref_attempts_def)
  have shape0: "attempts = file_attempts (extract_upload_file_candidates u) @
      concat (map ref_attempts (extract_upload_reference_strings rp u)) @ [text_attempt fb]"
    unfolding assms(1) by (rule respond_attempts_shape)
  then have ne: "attempts \<noteq> []" by simp
  have shape: "attempts =
           file_attempts (extract_upload_file_candidates u) @
           concat (map (\<lambda>ref.
               [JObj [(''responseType'', JStr ''FILE''), (''content'', JStr ref)],
                JObj [(''responseType'', JStr ''FILE''), (''fileUrl'', JStr ref)],
                JObj [(''responseType'', JStr ''FILE''), (''url'', JStr ref)],
                JObj [(''responseType'', JStr ''FILE''), (''attachments'', JList [JStr ref])],
                JObj [(''responseType'', JStr ''FILE''),
                      (''files'', JList [JObj [(''url'', JStr ref)]])]])
             (extract_upload_reference_strings rp u)) @
           [JObj [(''responseType'', JStr ''TEXT''), (''content'', JStr fb)]]"
    using shape0 unfolding five text_attempt_def .
  have rf: "respond_file rp w tr job_id u fb = try_attempts w job_id ?ep attempts None tr"
    by (simp add: respond_file_def respond_endpoint_def assms(1))
  have pre: "\<forall>i<length (take k attempts).
      is_api_error (reply_at w tr ?ep (take k attempts @ drop k attempts) i)"
    using assms(3) by simp
  have skip: "try_attempts w job_id ?ep attempts None tr =
      try_attempts w job_id ?ep (drop k attempts)
        (if take k attempts = [] then None
         else Some (error_text (reply_at w tr ?ep attempts (length (take k attempts) - 1))))
        (tr @ map (post_call ?ep) (take k attempts))"
    using try_attempts_skip [OF pre, of job_id None] by simp
  have beh: "respond_file rp w tr job_id u fb =
           (if k < length attempts
            then (reply_at w tr ?ep attempts k,
                  tr @ map (post_call ?ep) (take (Suc k) attempts))
            else (Inl (SeedstrApiError
                    (''Failed to submit file response for job '' @ job_id @ '': '' @
                     error_text (reply_at w tr ?ep attempts (length attempts - 1)))),
                  tr @ map (post_call ?ep) attempts))"
  proof (cases "k < length attempts")
    case True
    then have d: "drop k attempts = attempts ! k # drop (Suc k) attempts"
      by (simp add: Cons_nth_drop_Suc)
    from True assms(4)
    have "\<not> is_api_error (http w (tr @ map (post_call ?ep) (take k attempts))
        ''POST'' ?ep (Some (attempts ! k)))"
      by (simp add: reply_at_def)
    from try_attempts_stop [OF this]
    have "try_attempts w job_id ?ep (drop k attempts)
        (if take k attempts = [] then None
         else Some (error_text (reply_at w tr ?ep attempts (length (take k attempts) - 1))))
        (tr @ map (post_call ?ep) (take k attempts)) =
      (reply_at w tr ?ep attempts k,
       (tr @ map (post_call ?ep) (take k attempts)) @ [post_call ?ep (attempts ! k)])"
      unfolding d by (simp add: reply_at_def)
    with True skip rf show ?thesis
      by (simp add: take_Suc_conv_app_nth)
  next
    case False
    with assms(2) have k: "k = length attempts" by simp
    with skip ne rf False show ?thesis by simp
  qed
  from shape beh show ?thesis by (rule conjI)
qed

text \<open>The eight payloads for an upload result with one file descriptor that has a \<open>url\<close>.\<close>

lemma demo_attempts:
  "respond_attempts (\<lambda>v. []) demo_upload_result ''fallback'' =
     [JObj [(''responseType'', JStr ''FILE''),
            (''files'', JList [JObj [(''url'', JStr ''https://cdn.example/file.zip'')]])],
      JObj [(''responseType'', JStr ''FILE''),
            (''file'', JObj [(''url'', JStr ''https://cdn.example/file.zip'')])],
      JObj [(''responseType'', JStr ''FILE''), (''content'', JStr ''https://cdn.example/file.zip'')],
      JObj [(''responseType'', JStr ''FILE''), (''fileUrl'', JStr ''https://cdn.example/file.zip'')],
      JObj [(''responseType'', JStr ''FILE''), (''url'', JStr ''https://cdn.example/file.zip'')],
      JObj [(''responseType'', JStr ''FILE''),
            (''attachments'', JList [JStr ''https://cdn.example/file.zip''])],
      JObj [(''responseType'', JStr ''FILE''),
            (''files'', JList [JObj [(''url'', JStr ''https://cdn.example/file.zip'')]])],
      JObj [(''responseType'', JStr ''TEXT''), (''content'', JStr ''fallback'')]]"
  by (simp add: respond_attempts_def extract_upload_file_candidates_def
      demo_upload_result_def dict_get_def dict_get_default_def List.map_filter_simps
      extract_upload_reference_strings_def add_refs_of_def add_ref_def ref_keys_def
      ref_attempts_def strip_def lstrip_def rstrip_def py_isspace_def Let_def)

theorem respond_file_order_witness:
  "respond_file (\<lambda>v. []) (demo_world first_fails) [] ''job-1'' demo_upload_result ''fallback'' =
     (Inr (JObj [(''ok'', JBool True)]),
      [HttpRequest ''POST'' ''/jobs/job-1/respond''
         (Some (JObj [(''responseType'', JStr ''FILE''),
                      (''files'', JList [JObj [(''url'', JStr ''https://cdn.example/file.zip'')]])])),
       HttpRequest ''POST'' ''/jobs/job-1/respond''
         (Some (JObj [(''responseType'', JStr ''FILE''),
                      (''file'', JObj [(''url'', JStr ''https://cdn.example/file.zip'')])]))]) \<and>
   respond_file (\<lambda>v. []) (demo_world always_fail) [] ''job-1'' demo_upload_result ''fallback'' =
     (Inl (SeedstrApiError ''Failed to submit file response for job job-1: nope''),
      map (\<lambda>payload. HttpRequest ''POST'' ''/jobs/job-1/respond'' (Some payload))
        [JObj [(''responseType'', JStr ''FILE''),
               (''files'', JList [JObj [(''url'', JStr ''https://cdn.example/file.zip'')]])],
         JObj [(''responseType'', JStr ''FILE''),
               (''file'', JObj [(''url'', JStr ''https://cdn.example/file.zip'')])],
         JObj [(''responseType'', JStr ''FILE''),
               (''content'', JStr ''https://cdn.example/file.zip'')],
         JObj [(''responseType'', JStr ''FILE''),
               (''fileUrl'', JStr ''https://cdn.example/file.zip'')],
         JObj [(''responseType'', JStr ''FILE''), (''url'', JStr ''https://cdn.example/file.zip'')],
         JObj [(''responseType'', JStr ''FILE''),
               (''attachments'', JList [JStr ''https://cdn.example/file.zip''])],
         JObj [(''responseType'', JStr ''FILE''),
               (''files'', JList [JObj [(''url'', JStr ''https://cdn.example/file.zip'')]])],
         JObj [(''responseType'', JStr ''TEXT''), (''content'', JStr ''fallback'')]]) \<and>
   respond_file (\<lambda>v. []) (demo_world transport_down) [] ''job-1'' demo_upload_result ''fallback'' =
     (Inl (OtherException ''connection refused''),
      [HttpRequest ''POST'' ''/jobs/job-1/respond''
         (Some (JObj [(''responseType'', JStr ''FILE''),
                      (''files'', JList [JObj [(''url'', JStr ''https://cdn.example/file.zip'')]])]))])"
proof -
  let ?as = "respond_attempts (\<lambda>v. []) demo_upload_result ''fallback''"
  have len: "length ?as = 8" by (simp add: demo_attempts)
  have 2: "1 \<le> length ?as" using len by simp
  have 3: "\<forall>i<1. is_api_error
      (reply_at (demo_world first_fails) [] (respond_endpoint ''job-1'') ?as i)"
    by (simp add: reply_at_def demo_world_def first_fails_def is_api_error_def)
  have 4: "1 < length ?as \<longrightarrow>
      \<not> is_api_error (reply_at (demo_world first_fails) [] (respond_endpoint ''job-1'') ?as 1)"
    by (simp add: reply_at_def demo_world_def first_fails_def is_api_error_def len
        take_Suc_conv_app_nth)
  have first: "respond_file (\<lambda>v. []) (demo_world first_fails) [] ''job-1'' demo_upload_result
      ''fallback'' =
     (Inr (JObj [(''ok'', JBool True)]),
      [HttpRequest ''POST'' ''/jobs/job-1/respond''
         (Some (JObj [(''responseType'', JStr ''FILE''),
                      (''files'', JList [JObj [(''url'', JStr ''https://cdn.example/file.zip'')]])])),
       HttpRequest ''POST'' ''/jobs/job-1/respond''
         (Some (JObj [(''responseType'', JStr ''FILE''),
                      (''file'', JObj [(''url'', JStr ''https://cdn.example/file.zip'')])]))])"
    using respond_file_order [OF refl 2 3 4] len
    by (simp add: demo_attempts reply_at_def demo_world_def first_fails_def post_call_def
        respond_endpoint_def take_Suc_conv_app_nth)
  have 5: "length ?as \<le> length ?as" by simp
  have 6: "\<forall>i<length ?as. is_api_error
      (reply_at (demo_world always_fail) [] (respond_endpoint ''job-1'') ?as i)"
    by (simp add: reply_at_def demo_world_def always_fail_def is_api_error_def)
  have 7: "length ?as < length ?as \<longrightarrow>
      \<not> is_api_error (reply_at (demo_world always_fail) [] (respond_endpoint ''job-1'') ?as
           (length ?as))"
    by simp
  have all: "respond_file (\<lambda>v. []) (demo_world always_fail) [] ''job-1'' demo_upload_result
      ''fallback'' =
     (Inl (SeedstrApiError ''Failed to submit file response for job job-1: nope''),
      map (post_call (respond_endpoint ''job-1'')) ?as)"
    using respond_file_order [OF refl 5 6 7]
    by (simp add: reply_at_def demo_world_def always_fail_def error_text_def)
  have 8: "0 \<le> length ?as" by simp
  have 9: "\<forall>i<0. is_api_error
      (reply_at (demo_world transport_down) [] (respond_endpoint ''job-1'') ?as i)"
    by simp
  have 10: "0 < length ?as \<longrightarrow>
      \<not> is_api_error (reply_at (demo_world transport_down) [] (respond_endpoint ''job-1'') ?as 0)"
    by (simp add: reply_at_def demo_world_def transport_down_def is_api_error_def)
  have down: "respond_file (\<lambda>v. []) (demo_world transport_down) [] ''job-1'' demo_upload_result
      ''fallback'' =
     (Inl (OtherException ''connection refused''),
      [HttpRequest ''POST'' ''/jobs/job-1/respond''
         (Some (JObj [(''responseType'', JStr ''FILE''),
                      (''files'', JList [JObj [(''url'', JStr ''https://cdn.example/file.zip'')]])]))])"
    using respond_file_order [OF refl 8 9 10] len
    by (simp add: demo_attempts reply_at_def demo_world_def transport_down_def post_call_def
        respond_endpoint_def)
  have pc: "post_call (respond_endpoint ''job-1'') =
      (\<lambda>payload. HttpRequest ''POST'' ''/jobs/job-1/respond'' (Some payload) :: rat call)"
    by (rule ext) (simp add: post_call_def respond_endpoint_def)
  from first all down show ?thesis
    by (simp only: pc demo_attempts simp_thms)
qed

text \<open>
  C10.  When neither a file descriptor nor a reference string can be extracted from
  the upload result, the only attempt is the plain-text payload
  \<open>{responseType: "TEXT", content: fallback_text}\<close>; \<open>respond_file\<close> makes exactly that
  one request, and returns its result when the request succeeds.
\<close>

theorem respond_file_text_only:
  assumes "extract_upload_file_candidates u = []"
    and "extract_upload_reference_strings rp u = []"
  shows "respond_attempts rp u fb = [text_attempt fb] \<and>
         snd (respond_file rp w tr job_id u fb) =
           tr @ [post_call (respond_endpoint job_id) (text_attempt fb)] \<and>
         (\<forall>r. http w tr ''POST'' (respond_endpoint job_id) (Some (text_attempt fb)) = Inr r \<longrightarrow>
              fst (respond_file rp w tr job_id u fb) = Inr r)"
proof -
  have a: "respond_attempts rp u fb = [text_attempt fb]"
    using assms by (simp add: respond_attempts_shape file_attempts_def)
  have rf: "respond_file rp w tr job_id u fb =
      try_attempts w job_id (respond_endpoint job_id) [text_attempt fb] None tr"
    by (simp add: respond_file_def respond_endpoint_def a)
  have tr: "snd (respond_file rp w tr job_id u fb) =
      tr @ [post_call (respond_endpoint job_id) (text_attempt fb)]"
    unfolding rf
    by (auto simp: request_def post_call_def split: sum.splits exn.splits)
  have ok: "\<forall>r. http w tr ''POST'' (respond_endpoint job_id) (Some (text_attempt fb)) = Inr r \<longrightarrow>
      fst (respond_file rp w tr job_id u fb) = Inr r"
    unfolding rf by (simp add: request_def)
  from a tr ok show ?thesis by blast
qed

theorem respond_file_text_only_witness:
  "respond_file (\<lambda>v. []) (demo_world always_ok) [] ''job-1'' [] ''fallback'' =
     (Inr (JObj [(''ok'', JBool True)]),
      [HttpRequest ''POST'' ''/jobs/job-1/respond''
         (Some (JObj [(''responseType'', JStr ''TEXT''), (''content'', JStr ''fallback'')]))])"
proof -
  have 1: "extract_upload_file_candidates ([] :: rat pydict) = []"
    by (simp add: extract_upload_file_candidates_def dict_get_def dict_get_default_def)
  have 2: "extract_upload_reference_strings (\<lambda>v. []) ([] :: rat pydict) = []"
    by (simp add: extract_upload_reference_strings_def 1 add_refs_of_def add_ref_def
        ref_keys_def dict_get_def dict_get_default_def)
  have 3: "http (demo_world always_ok) [] ''POST'' (respond_endpoint ''job-1'')
      (Some (text_attempt ''fallback'')) = Inr (JObj [(''ok'', JBool True)])"
    by (simp add: demo_world_def always_ok_def)
  from respond_file_text_only [OF 1 2, of "''fallback''" "demo_world always_ok" "[]" "''job-1''"] 3
  have "snd (respond_file (\<lambda>v. []) (demo_world always_ok) [] ''job-1'' [] ''fallback'') =
          [post_call (respond_endpoint ''job-1'') (text_attempt ''fallback'')]"
    and "fst (respond_file (\<lambda>v. []) (demo_world always_ok) [] ''job-1'' [] ''fallback'') =
          Inr (JObj [(''ok'', JBool True)])"
    by simp_all
  then show ?thesis
    by (simp add: prod_eq_iff post_call_def respond_endpoint_def text_attempt_def)
qed

section \<open>Properties of the job pipeline\<close>

subsection \<open>The effective budget\<close>

lemma py_float_exn:
  assumes "py_float rt v = Inl e"
  shows "(\<exists>m. e = TypeError m) \<or> (\<exists>m. e = ValueError m) \<or> (\<exists>m. e = OverflowError m)"
  using assms by (cases v) (auto simp: py_float_def split: option.splits)

lemma float_or_zero_cases:
  assumes "\<forall>m. py_float rt v \<noteq> Inl (OverflowError m)"
  shows "float_or_zero rt v = Inr (case py_float rt v of Inr x \<Rightarrow> x | Inl e \<Rightarrow> float_zero rt)"
proof (cases "py_float rt v")
  case (Inl e)
  with py_float_exn [OF Inl] assms show ?thesis
    by (auto simp: float_or_zero_def)
next
  case (Inr x)
  then show ?thesis by (simp add: float_or_zero_def)
qed

text \<open>Only an integer (or a boolean, which is one) can be too large for a float.\<close>

lemma py_float_overflow_only_int:
  assumes "py_float rt v = Inl (OverflowError m)"
  shows "(\<exists>i. v = JInt i) \<or> (\<exists>b. v = JBool b)"
  using assms by (cases v) (auto simp: py_float_def split: option.splits)

text \<open>Such an integer is not caught: \<open>_effective_budget\<close> raises.\<close>

lemma effective_budget_overflow:
  assumes "float_of_int rt i = None"
  shows "effective_budget rt [(''budget'', JInt i)] =
           Inl (OverflowError ''int too large to convert to float'')"
  using assms
  by (simp add: effective_budget_def float_or_zero_def py_float_def dict_get_def
      dict_get_default_def)

text \<open>
  C5, as stated, fails: for a job whose \<open>jobType\<close> is \<open>SWARM\<close> and that has no
  \<open>budgetPerAgent\<close>, the effective budget is not 0 but the job's \<open>budget\<close>.
\<close>

theorem effective_budget_swarm_counterexample:
  "dict_get [(''id'', JStr ''4''), (''jobType'', JStr ''SWARM''), (''budget'', JFloat (5 :: rat))]
     ''jobType'' = JStr ''SWARM'' \<and>
   map_of [(''id'', JStr ''4''), (''jobType'', JStr ''SWARM''), (''budget'', JFloat (5 :: rat))]
     ''budgetPerAgent'' = None \<and>
   effective_budget demo_runtime
     [(''id'', JStr ''4''), (''jobType'', JStr ''SWARM''), (''budget'', JFloat 5)] = Inr 5 \<and>
   float_zero demo_runtime \<noteq> 5"
  by (simp add: effective_budget_def float_or_zero_def py_float_def dict_get_def
      dict_get_default_def demo_runtime_def)

text \<open>
  C5, amended.  The value converted is \<open>budgetPerAgent\<close> when \<open>jobType\<close> is the string
  \<open>SWARM\<close> and \<open>budgetPerAgent\<close> is present and not null, and \<open>budget\<close> in every other
  case (a SWARM job without \<open>budgetPerAgent\<close> included).  The effective budget is the
  float that value converts to, and \<open>0.0\<close> when the value is absent or its conversion
  raises \<open>TypeError\<close> or \<open>ValueError\<close>.  Integers too large for a float (the
  conversion raises \<open>OverflowError\<close>) are left out.
\<close>

theorem effective_budget_amended:
  assumes "float_of_int rt 0 = Some (float_zero rt)"
    and "v = (if dict_get job ''jobType'' = JStr ''SWARM'' \<and> dict_get job ''budgetPerAgent'' \<noteq> JNull
              then dict_get job ''budgetPerAgent'' else dict_get job ''budget'')"
    and "\<forall>m. py_float rt v \<noteq> Inl (OverflowError m)"
  shows "effective_budget rt job =
           Inr (case py_float rt v of Inr x \<Rightarrow> x | Inl e \<Rightarrow> float_zero rt)"
proof (cases "dict_get job ''jobType'' = JStr ''SWARM'' \<and> dict_get job ''budgetPerAgent'' \<noteq> JNull")
  case True
  with assms(2) have v: "v = dict_get job ''budgetPerAgent''" by simp
  with True float_or_zero_cases [OF assms(3)] show ?thesis by (simp add: effective_budget_def)
next
  case False
  with assms(2) have v: "v = dict_get job ''budget''" by auto
  show ?thesis
  proof (cases "map_of job ''budget''")
    case None
    then have "v = JNull" by (simp add: v dict_get_def dict_get_default_def)
    moreover have "effective_budget rt job = Inr (float_zero rt)"
      using False None assms(1)
      by (auto simp: effective_budget_def dict_get_default_def float_or_zero_def py_float_def)
    ultimately show ?thesis by (simp add: py_float_def)
  next
    case (Some b)
    then have vb: "dict_get_default job ''budget'' (JInt 0) = v"
      by (simp add: v dict_get_def dict_get_default_def)
    with False float_or_zero_cases [OF assms(3)] show ?thesis by (auto simp: effective_budget_def)
  qed
qed

theorem effective_budget_amended_witness:
  "effective_budget demo_runtime swarm_job = Inr 3 \<and>
   effective_budget demo_runtime [(''id'', JStr ''5''), (''budget'', JStr ''abc'')] = Inr 0"
proof -
  have z: "float_of_int demo_runtime 0 = Some (float_zero demo_runtime)"
    by (simp add: demo_runtime_def)
  have v1: "JFloat 3 =
      (if dict_get swarm_job ''jobType'' = JStr ''SWARM'' \<and>
          dict_get swarm_job ''budgetPerAgent'' \<noteq> JNull
       then dict_get swarm_job ''budgetPerAgent'' else dict_get swarm_job ''budget'')"
    by (simp add: swarm_job_def dict_get_def dict_get_default_def)
  have o1: "\<forall>m. py_float demo_runtime (JFloat 3) \<noteq> Inl (OverflowError m)"
    by (simp add: py_float_def)
  let ?job = "[(''id'', JStr ''5''), (''budget'', JStr ''abc'')] :: rat pydict"
  have v2: "JStr ''abc'' =
      (if dict_get ?job ''jobType'' = JStr ''SWARM'' \<and> dict_get ?job ''budgetPerAgent'' \<noteq> JNull
       then dict_get ?job ''budgetPerAgent'' else dict_get ?job ''budget'')"
    by (simp add: dict_get_def dict_get_default_def)
  have o2: "\<forall>m. py_float demo_runtime (JStr ''abc'') \<noteq> Inl (OverflowError m)"
    by (simp add: py_float_def demo_runtime_def is_digit_def)
  show ?thesis
    using effective_budget_amended [OF z v1 o1] effective_budget_amended [OF z v2 o2]
    by (simp add: py_float_def demo_runtime_def is_digit_def)
qed

subsection \<open>Jobs already seen\<close>

text \<open>
  C7.  When the job's id is in the set of seen jobs, \<open>_process_job\<close> returns with the
  runner's state (the set and the stored file) and the trace of outside calls as
  they were: no accept, upload, respond or model call is made.
\<close>

theorem process_job_already_seen:
  assumes "job_id_of rt job \<in> seen_jobs st"
  shows "process_job rt w cfg c st tr job = (None, st, tr)"
  using assms by (simp add: process_job_def job_id_of_def Let_def)

theorem process_job_already_seen_witness:
  "process_job demo_runtime (demo_world always_ok) demo_settings demo_client
     \<lparr>seen_jobs = {''2''}, insertions = [''2''], state_file = None\<rparr> [] standard_job =
   (None, \<lparr>seen_jobs = {''2''}, insertions = [''2''], state_file = None\<rparr>, [])"
  using process_job_already_seen [of demo_runtime standard_job "\<lparr>seen_jobs = {''2''}, insertions = [''2''], state_file = None\<rparr>"
      "demo_world always_ok" demo_settings demo_client "[]"]
  by (simp add: job_id_of_def standard_job_def dict_get_default_def)

subsection \<open>When a job is marked seen\<close>

lemma seen_jobs_mark_seen: "seen_jobs (mark_seen rt st job_id) = insert job_id (seen_jobs st)"
  by (simp add: mark_seen_def Let_def)

lemma process_prompt_state:
  "fst (snd (process_prompt rt w c st tr job job_id)) =
     (if strip (py_str (repr rt) (dict_get_default job ''prompt'' (JStr []))) = [] \<or>
         fst (submit_job rt w c tr job_id
                (strip (py_str (repr rt) (dict_get_default job ''prompt'' (JStr []))))) = Inr ()
      then mark_seen rt st job_id else st)"
  by (auto simp: process_prompt_def Let_def split: prod.splits sum.splits)

lemma process_job_state:
  assumes "job_id_of rt job \<noteq> []" and "job_id_of rt job \<notin> seen_jobs st"
  shows "fst (snd (process_job rt w cfg c st tr job)) =
           (if marked_outcome rt w cfg c tr job then mark_seen rt st (job_id_of rt job) else st)"
proof (cases "effective_budget rt job")
  case (Inl e)
  with assms show ?thesis
    by (simp add: process_job_def Let_def marked_outcome_def under_budget_def budget_ok_def
        reaches_submission_def job_id_of_def)
next
  case (Inr b)
  show ?thesis
  proof (cases "float_less rt b (min_budget_usd cfg)")
    case True
    with Inr assms show ?thesis
      by (simp add: process_job_def Let_def marked_outcome_def under_budget_def job_id_of_def)
  next
    case False
    with Inr have ub: "\<not> under_budget rt cfg job" and bo: "budget_ok rt cfg job"
      by (simp_all add: under_budget_def budget_ok_def)
    show ?thesis
    proof (cases "is_swarm rt job")
      case sw: True
      obtain r tr' where acc: "accept_job w tr (job_id_of rt job) = (r, tr')"
        by (cases "accept_job w tr (job_id_of rt job)")
      show ?thesis
      proof (cases r)
        case (Inl e)
        show ?thesis
        proof (cases "is_api_error r")
          case True
          then obtain m where "r = Inl (SeedstrApiError m)" by (rule is_api_errorE)
          with assms Inr False sw acc True ub bo show ?thesis
            by (simp add: process_job_def Let_def marked_outcome_def accept_failed_def
                job_id_of_def is_swarm_def)
        next
          case nf: False
          with Inl have "process_job rt w cfg c st tr job = (Some e, st, tr')"
            using assms Inr False sw acc
            by (cases e) (simp_all add: process_job_def Let_def job_id_of_def is_swarm_def
                is_api_error_def)
          moreover have "\<not> marked_outcome rt w cfg c tr job"
            using ub sw acc nf Inl
            by (simp add: marked_outcome_def accept_failed_def accepted_def reaches_submission_def)
          ultimately show ?thesis by simp
        qed
      next
        case (Inr a)
        with assms \<open>effective_budget rt job = Inr b\<close> False sw acc
        have "process_job rt w cfg c st tr job = process_prompt rt w c st tr' job (job_id_of rt job)"
          by (simp add: process_job_def Let_def job_id_of_def is_swarm_def)
        moreover have "marked_outcome rt w cfg c tr job =
            (prompt_of rt job = [] \<or>
             fst (submit_job rt w c tr' (job_id_of rt job) (prompt_of rt job)) = Inr ())"
          using ub bo sw acc Inr
          by (auto simp: marked_outcome_def accept_failed_def accepted_def reaches_submission_def
              submission_def trace_at_prompt_def is_api_error_def)
        ultimately show ?thesis
          by (simp add: process_prompt_state prompt_of_def)
      qed
    next
      case ns: False
      with assms Inr False
      have "process_job rt w cfg c st tr job = process_prompt rt w c st tr job (job_id_of rt job)"
        by (simp add: process_job_def Let_def job_id_of_def is_swarm_def)
      moreover have "marked_outcome rt w cfg c tr job =
          (prompt_of rt job = [] \<or>
           fst (submit_job rt w c tr (job_id_of rt job) (prompt_of rt job)) = Inr ())"
        using ub bo ns
        by (auto simp: marked_outcome_def accept_failed_def accepted_def reaches_submission_def
            submission_def trace_at_prompt_def)
      ultimately show ?thesis
        by (simp add: process_prompt_state prompt_of_def)
    qed
  qed
qed

text \<open>
  The body of the \<open>try\<close> ends without exception exactly when generation, packaging,
  upload and response all succeed, one after the other.
\<close>

lemma submit_job_succeeds_iff:
  "fst (submit_job rt w c tr job_id prompt) = Inr () \<longleftrightarrow>
     (\<exists>answer used_model tr1 upload_result tr2 r tr3.
        generate w c tr prompt system_prompt_text = (Inr (answer, used_model), tr1) \<and>
        fs_archive w tr1 (''seedstr-job-'' @ job_id @ ''-response.zip'')
          (create_submission_archive job_id prompt answer used_model (now_utc w tr1)) = None \<and>
        upload_file w tr1 (''seedstr-job-'' @ job_id @ ''-response.zip'')
          (Some (zip_b64 w tr1
             (create_submission_archive job_id prompt answer used_model (now_utc w tr1)))) =
          (Inr (JObj upload_result), tr2) \<and>
        respond_file (repr rt) w tr2 job_id upload_result answer = (Inr r, tr3))"
  by (auto simp: submit_job_def Let_def split: prod.splits sum.splits option.splits json.splits)

text \<open>
  An accept request that raises anything but \<open>SeedstrApiError\<close> is not caught: the
  exception leaves \<open>_process_job\<close>, and the state is as before.
\<close>

lemma process_job_accept_raises:
  assumes "job_id_of rt job \<noteq> []" and "job_id_of rt job \<notin> seen_jobs st"
    and "budget_ok rt cfg job" and "is_swarm rt job"
    and "accept_job w tr (job_id_of rt job) = (Inl e, tr')"
    and "\<not> is_api_error (Inl e :: exn + 'f json)"
  shows "process_job rt w cfg c st tr (job :: 'f pydict) = (Some e, st, tr')"
  using assms
  by (cases e)
     (auto simp: process_job_def Let_def budget_ok_def is_swarm_def job_id_of_def
        is_api_error_def split: sum.splits)

text \<open>
  C6, amended.  For a job with a non-empty id that is not yet in the set of seen jobs,
  the runner's state after \<open>_process_job\<close> is the state after \<open>_mark_seen\<close> of the id
  exactly when the job ends in one of four ways: its budget is below the minimum; it is
  a SWARM job whose accept request raises \<open>SeedstrApiError\<close>; its prompt is empty after
  trimming; generation, packaging, upload and response succeed.  \<open>_mark_seen\<close> adds the
  id to the set.  In every other case the state is unchanged; in particular when the
  job reaches the \<open>try\<close> and an exception is raised during generation, packaging, upload
  or response.  A failed accept marks the job only when what it raises is
  \<open>SeedstrApiError\<close>: when the accept request of a SWARM job with sufficient budget
  raises any other exception, that exception leaves \<open>_process_job\<close>, the state is
  unchanged, and the accept request is the only outside call made.
\<close>

theorem process_job_marks_seen:
  assumes "job_id_of rt job \<noteq> []" and "job_id_of rt job \<notin> seen_jobs st"
  shows "fst (snd (process_job rt w cfg c st tr job)) =
           (if marked_outcome rt w cfg c tr job then mark_seen rt st (job_id_of rt job) else st) \<and>
         seen_jobs (mark_seen rt st (job_id_of rt job)) = insert (job_id_of rt job) (seen_jobs st) \<and>
         (reaches_submission rt w cfg tr job \<and> (\<exists>e. submission rt w c tr job = Inl e) \<longrightarrow>
            fst (snd (process_job rt w cfg c st tr job)) = st) \<and>
         (\<forall>e. budget_ok rt cfg job \<and> is_swarm rt job \<and>
              fst (accept_job w tr (job_id_of rt job)) = Inl e \<and>
              \<not> is_api_error (fst (accept_job w tr (job_id_of rt job))) \<longrightarrow>
              process_job rt w cfg c st tr job =
                (Some e, st, tr @ [HttpRequest ''POST'' (''/jobs/'' @ job_id_of rt job @ ''/accept'')
                                     None]))"
proof -
  note state = process_job_state [OF assms, of w cfg c tr]
  have sub: "fst (snd (process_job rt w cfg c st tr job)) = st"
    if "reaches_submission rt w cfg tr job" and "\<exists>e. submission rt w c tr job = Inl e"
  proof -
    from that have "\<not> marked_outcome rt w cfg c tr job"
      by (auto simp: marked_outcome_def reaches_submission_def under_budget_def budget_ok_def
          accept_failed_def accepted_def is_api_error_def split: sum.splits)
    with state show ?thesis by simp
  qed
  have acc: "process_job rt w cfg c st tr job =
      (Some e, st, tr @ [HttpRequest ''POST'' (''/jobs/'' @ job_id_of rt job @ ''/accept'') None])"
    if "budget_ok rt cfg job" and "is_swarm rt job"
      and "fst (accept_job w tr (job_id_of rt job)) = Inl e"
      and "\<not> is_api_error (fst (accept_job w tr (job_id_of rt job)))" for e
  proof -
    from that(3) have a: "accept_job w tr (job_id_of rt job) =
        (Inl e, tr @ [HttpRequest ''POST'' (''/jobs/'' @ job_id_of rt job @ ''/accept'') None])"
      by (simp add: accept_job_def request_def)
    note n = that(4) [unfolded that(3)]
    from process_job_accept_raises [OF assms that(1,2) a n] show ?thesis .
  qed
  have 1: "fst (snd (process_job rt w cfg c st tr job)) =
      (if marked_outcome rt w cfg c tr job then mark_seen rt st (job_id_of rt job) else st)"
    by (rule state)
  have 2: "seen_jobs (mark_seen rt st (job_id_of rt job)) = insert (job_id_of rt job) (seen_jobs st)"
    by (rule seen_jobs_mark_seen)
  have 3: "reaches_submission rt w cfg tr job \<and> (\<exists>e. submission rt w c tr job = Inl e) \<longrightarrow>
      fst (snd (process_job rt w cfg c st tr job)) = st"
    using sub by blast
  have 4: "\<forall>e. budget_ok rt cfg job \<and> is_swarm rt job \<and>
      fst (accept_job w tr (job_id_of rt job)) = Inl e \<and>
      \<not> is_api_error (fst (accept_job w tr (job_id_of rt job))) \<longrightarrow>
      process_job rt w cfg c st tr job =
        (Some e, st, tr @ [HttpRequest ''POST'' (''/jobs/'' @ job_id_of rt job @ ''/accept'')
                             None])"
    using acc by blast
  from 1 2 3 4 show ?thesis by (intro conjI)
qed

lemmas demo_eval =
  job_id_of_def prompt_of_def is_swarm_def under_budget_def budget_ok_def accept_failed_def
  accepted_def trace_at_prompt_def submission_def reaches_submission_def marked_outcome_def
  effective_budget_def float_or_zero_def py_float_def dict_get_def dict_get_default_def
  demo_runtime_def demo_settings_def empty_runner_def
  strip_def lstrip_def rstrip_def py_isspace_def

lemma demo_generate:
  "generate (demo_world h) demo_client [] p system_prompt_text =
     (Inr (''final'', ''openai:o2''),
      [GeminiGenerate ''g1'' (gemini_full_prompt p system_prompt_text),
       OpenAIChat ''o1'' system_prompt_text p,
       OpenAIChat ''o2'' system_prompt_text p])"
  by (simp add: generate_def demo_client_def call_target_def target_def generate_gemini_def
      generate_openai_def demo_world_def label_def strip_def lstrip_def rstrip_def py_isspace_def
      Let_def)

lemma demo_world_sel:
  "http (demo_world h) = h"
  "fs_archive (demo_world h) = (\<lambda>tr name members. None)"
  "zip_b64 (demo_world h) = (\<lambda>tr members. ''UEsDBA=='')"
  "now_utc (demo_world h) = (\<lambda>tr. ''2026-01-01T00:00:00+00:00'')"
  "guess_mime (demo_world h) = (\<lambda>name. Some ''application/zip'')"
  by (simp_all add: demo_world_def)

lemma demo_submit_ok:
  "fst (submit_job demo_runtime (demo_world always_ok) demo_client [] ''2'' ''solve this'') = Inr ()"
  by (simp add: submit_job_def demo_generate Let_def upload_file_def request_def
      respond_file_def respond_attempts_def extract_upload_file_candidates_def
      extract_upload_reference_strings_def add_refs_of_def add_ref_def ref_keys_def
      dict_get_def dict_get_default_def demo_world_sel always_ok_def)

lemma demo_submit_fail:
  "fst (submit_job demo_runtime (demo_world always_fail) demo_client [] ''2'' ''solve this'') =
     Inl (SeedstrApiError ''nope'')"
  by (simp add: submit_job_def demo_generate Let_def upload_file_def request_def
      demo_world_sel always_fail_def)

theorem process_job_marks_seen_witness:
  "seen_jobs (fst (snd (process_job demo_runtime (demo_world always_ok) demo_settings demo_client
      empty_runner [] cheap_job))) = {''1''} \<and>
   seen_jobs (fst (snd (process_job demo_runtime (demo_world always_ok) demo_settings demo_client
      empty_runner [] standard_job))) = {''2''} \<and>
   fst (snd (process_job demo_runtime (demo_world always_fail) demo_settings demo_client
      empty_runner [] standard_job)) = empty_runner \<and>
   seen_jobs (fst (snd (process_job demo_runtime (demo_world always_fail) demo_settings demo_client
      empty_runner [] swarm_job))) = {''3''} \<and>
   process_job demo_runtime (demo_world transport_down) demo_settings demo_client empty_runner []
     swarm_job =
     (Some (OtherException ''connection refused''), empty_runner,
      [HttpRequest ''POST'' ''/jobs/3/accept'' None])"
proof -
  have a: "job_id_of demo_runtime swarm_job \<noteq> []"
      "job_id_of demo_runtime swarm_job \<notin> seen_jobs empty_runner"
    by (simp_all add: job_id_of_def swarm_job_def dict_get_default_def empty_runner_def)
  have m4: "marked_outcome demo_runtime (demo_world always_fail) demo_settings demo_client []
      swarm_job"
    by (simp add: marked_outcome_def under_budget_def budget_ok_def accept_failed_def
        is_swarm_def job_id_of_def effective_budget_def float_or_zero_def py_float_def
        dict_get_def dict_get_default_def demo_runtime_def demo_settings_def swarm_job_def
        accept_job_def request_def demo_world_sel always_fail_def is_api_error_def)
  have 4: "seen_jobs (fst (snd (process_job demo_runtime (demo_world always_fail) demo_settings
      demo_client empty_runner [] swarm_job))) = {''3''}"
    using process_job_marks_seen [OF a, of "demo_world always_fail" demo_settings demo_client "[]"] m4
    by (simp add: job_id_of_def swarm_job_def dict_get_default_def empty_runner_def)
  have c: "job_id_of demo_runtime cheap_job \<noteq> []"
      "job_id_of demo_runtime cheap_job \<notin> seen_jobs empty_runner"
    by (simp_all add: job_id_of_def cheap_job_def dict_get_default_def empty_runner_def)
  have s: "job_id_of demo_runtime standard_job \<noteq> []"
      "job_id_of demo_runtime standard_job \<notin> seen_jobs empty_runner"
    by (simp_all add: job_id_of_def standard_job_def dict_get_default_def empty_runner_def)
  have m1: "marked_outcome demo_runtime (demo_world always_ok) demo_settings demo_client [] cheap_job"
    by (simp add: demo_eval cheap_job_def)
  have sub_ok: "submission demo_runtime (demo_world always_ok) demo_client [] standard_job = Inr ()"
    using demo_submit_ok by (simp add: demo_eval standard_job_def)
  have sub_fail: "submission demo_runtime (demo_world always_fail) demo_client [] standard_job =
      Inl (SeedstrApiError ''nope'')"
    using demo_submit_fail by (simp add: demo_eval standard_job_def)
  have reach: "reaches_submission demo_runtime w demo_settings [] standard_job" for w
    by (simp add: demo_eval standard_job_def)
  have m2: "marked_outcome demo_runtime (demo_world always_ok) demo_settings demo_client []
      standard_job"
    using reach sub_ok by (simp add: marked_outcome_def)
  have 1: "seen_jobs (fst (snd (process_job demo_runtime (demo_world always_ok) demo_settings
      demo_client empty_runner [] cheap_job))) = {''1''}"
    using process_job_marks_seen [OF c, of "demo_world always_ok" demo_settings demo_client "[]"] m1
    by (simp add: job_id_of_def cheap_job_def dict_get_default_def empty_runner_def)
  have 2: "seen_jobs (fst (snd (process_job demo_runtime (demo_world always_ok) demo_settings
      demo_client empty_runner [] standard_job))) = {''2''}"
    using process_job_marks_seen [OF s, of "demo_world always_ok" demo_settings demo_client "[]"] m2
    by (simp add: job_id_of_def standard_job_def dict_get_default_def empty_runner_def)
  have 3: "fst (snd (process_job demo_runtime (demo_world always_fail) demo_settings demo_client
      empty_runner [] standard_job)) = empty_runner"
  proof -
    note inst = process_job_marks_seen [OF s, of "demo_world always_fail" demo_settings demo_client "[]"]
    from inst [THEN conjunct2, THEN conjunct2, THEN conjunct1] reach sub_fail show ?thesis
      by blast
  qed
  have bo: "budget_ok demo_runtime demo_settings swarm_job"
    by (simp add: budget_ok_def effective_budget_def float_or_zero_def py_float_def
        dict_get_def dict_get_default_def demo_runtime_def demo_settings_def swarm_job_def)
  have sw: "is_swarm demo_runtime swarm_job"
    by (simp add: is_swarm_def swarm_job_def dict_get_default_def)
  have down: "fst (accept_job (demo_world transport_down) [] (job_id_of demo_runtime swarm_job)) =
      Inl (OtherException ''connection refused'')"
    by (simp add: accept_job_def request_def demo_world_sel transport_down_def)
  have nap: "\<not> is_api_error
      (fst (accept_job (demo_world transport_down) [] (job_id_of demo_runtime swarm_job)))"
    unfolding down by (simp add: is_api_error_def)
  have 5: "process_job demo_runtime (demo_world transport_down) demo_settings demo_client
      empty_runner [] swarm_job =
     (Some (OtherException ''connection refused''), empty_runner,
      [HttpRequest ''POST'' ''/jobs/3/accept'' None])"
  proof -
    note inst = process_job_marks_seen [OF a, of "demo_world transport_down" demo_settings
        demo_client "[]"]
    from inst [THEN conjunct2, THEN conjunct2, THEN conjunct2] bo sw down nap
    have "process_job demo_runtime (demo_world transport_down) demo_settings demo_client
        empty_runner [] swarm_job =
      (Some (OtherException ''connection refused''), empty_runner,
       [] @ [HttpRequest ''POST'' (''/jobs/'' @ job_id_of demo_runtime swarm_job @ ''/accept'')
               None])"
      by blast
    then show ?thesis
      by (simp add: job_id_of_def swarm_job_def dict_get_default_def)
  qed
  from 1 2 3 4 5 show ?thesis by simp
qed

text \<open>
  C6, as stated, fails for a SWARM job whose accept request fails with something that is
  not a \<open>SeedstrApiError\<close> (\<open>_request\<close> does not wrap what the transport raises, and
  \<open>_process_job\<close> catches only \<open>SeedstrApiError\<close> at the accept).  With the transport
  down, the accept of a SWARM job with sufficient budget fails, and the job is not added
  to the set of seen jobs: the exception leaves \<open>_process_job\<close> with the state as it was.
\<close>

theorem process_job_accept_transport_counterexample:
  "is_swarm demo_runtime swarm_job \<and>
   budget_ok demo_runtime demo_settings swarm_job \<and>
   accept_job (demo_world transport_down) [] ''3'' =
     (Inl (OtherException ''connection refused''), [HttpRequest ''POST'' ''/jobs/3/accept'' None]) \<and>
   process_job demo_runtime (demo_world transport_down) demo_settings demo_client empty_runner []
     swarm_job =
     (Some (OtherException ''connection refused''), empty_runner,
      [HttpRequest ''POST'' ''/jobs/3/accept'' None]) \<and>
   seen_jobs empty_runner = {}"
  by (simp add: process_job_def Let_def is_swarm_def budget_ok_def effective_budget_def
      float_or_zero_def py_float_def dict_get_def dict_get_default_def demo_runtime_def
      demo_settings_def swarm_job_def accept_job_def request_def demo_world_sel
      transport_down_def empty_runner_def)


subsection \<open>The persisted array\<close>

lemma persisted_mark_seen:
  "persisted (mark_seen rt st job_id) =
     map JStr (last_n 1000 (set_order rt (record_insertion (insertions st) job_id)))"
  by (simp add: persisted_def mark_seen_def dict_get_def dict_get_default_def Let_def)

lemma persisted_at_most_1000: "length (persisted (mark_seen rt st job_id)) \<le> 1000"
  by (simp add: persisted_mark_seen last_n_def)

text \<open>What a restart loads from the file that \<open>_mark_seen\<close> wrote.\<close>

lemma load_after_mark_seen:
  "load_seen_jobs rp (state_file (mark_seen rt st job_id)) =
     set (last_n 1000 (set_order rt (record_insertion (insertions st) job_id)))"
  by (simp add: load_seen_jobs_def loaded_items_def mark_seen_def dict_get_default_def Let_def
      comp_def)

lemma seen_jobs_mark_all: "seen_jobs (mark_all rt st ids) = seen_jobs st \<union> set ids"
  by (induction ids arbitrary: st) (auto simp: mark_all_def seen_jobs_mark_seen)

lemma insertions_mark_seen:
  "insertions (mark_seen rt st job_id) = record_insertion (insertions st) job_id"
  by (simp add: mark_seen_def Let_def)

lemma insertions_mark_all:
  "insertions (mark_all rt st ids) = foldl record_insertion (insertions st) ids"
  by (induction ids arbitrary: st) (simp_all add: mark_all_def insertions_mark_seen)

lemma foldl_record_insertion_distinct:
  assumes "distinct (xs @ ids)"
  shows "foldl record_insertion xs ids = xs @ ids"
  using assms
proof (induction ids arbitrary: xs)
  case Nil
  then show ?case by simp
next
  case (Cons x ids)
  from Cons.prems have "record_insertion xs x = xs @ [x]" and "distinct ((xs @ [x]) @ ids)"
    by (auto simp: record_insertion_def)
  with Cons.IH [of "xs @ [x]"] show ?case by simp
qed

text \<open>
  After distinct ids were marked on a fresh runner, the file holds the last 1000
  entries of the set's iteration.
\<close>

lemma persisted_mark_all_fresh:
  assumes "distinct ids" and "ids \<noteq> []"
  shows "persisted (mark_all rt \<lparr>seen_jobs = {}, insertions = [], state_file = None\<rparr> ids) =
           map JStr (last_n 1000 (set_order rt ids))"
proof -
  let ?st = "\<lparr>seen_jobs = {}, insertions = [], state_file = None\<rparr> :: 'a runner"
  from assms(2) obtain xs x where ids: "ids = xs @ [x]"
    by (cases ids rule: rev_cases) auto
  have m: "mark_all rt ?st ids = mark_seen rt (mark_all rt ?st xs) x"
    by (simp add: ids mark_all_def)
  have "insertions (mark_seen rt (mark_all rt ?st xs) x) = ids"
    using insertions_mark_all [of rt ?st ids] foldl_record_insertion_distinct [of "[]" ids] assms(1)
    by (simp add: m)
  then show ?thesis
    by (simp add: m persisted_mark_seen insertions_mark_seen)
qed

text \<open>
  C4.  The code does not keep the claim.  What \<open>_mark_seen\<close> persists is the last 1000
  entries of \<open>list(self._seen_jobs)\<close>, the iteration of a set: never more than 1000
  entries, but in the set's order of iteration, not in the order of insertion.  After
  distinct ids were marked on a fresh runner, the array is the last 1000 ids in
  insertion order exactly when the last 1000 entries of the set's iteration are, which
  the runtime does not promise; what is dropped at the cap is whatever the iteration
  yields first.
\<close>

theorem persisted_is_iteration_tail:
  assumes "distinct ids" and "ids \<noteq> []"
  shows "persisted (mark_all rt \<lparr>seen_jobs = {}, insertions = [], state_file = None\<rparr> ids) =
           map JStr (last_n 1000 (set_order rt ids)) \<and>
         length (persisted
           (mark_all rt \<lparr>seen_jobs = {}, insertions = [], state_file = None\<rparr> ids)) \<le> 1000 \<and>
         (persisted (mark_all rt \<lparr>seen_jobs = {}, insertions = [], state_file = None\<rparr> ids) =
            map JStr (last_n 1000 ids)) =
         (last_n 1000 (set_order rt ids) = last_n 1000 ids)"
proof -
  note p = persisted_mark_all_fresh [OF assms, of rt]
  have "(map JStr (last_n 1000 (set_order rt ids)) = (map JStr (last_n 1000 ids) :: 'a json list)) =
      (last_n 1000 (set_order rt ids) = last_n 1000 ids)"
    by (simp add: inj_map_eq_map inj_on_def)
  with p show ?thesis by (simp add: last_n_def)
qed

lemma many_ids_length: "length many_ids = 1001"
  by (simp add: many_ids_def del: upt_rec_numeral)

lemma many_ids_distinct: "distinct many_ids"
proof -
  have "inj_on (\<lambda>n. replicate (Suc n) (CHR ''j'')) (set [0..<1001])"
    by (rule inj_onI) (metis length_replicate nat.inject)
  then show ?thesis
    by (simp add: many_ids_def distinct_map del: upt_rec_numeral)
qed

lemma replicate_le:
  "n \<le> m \<Longrightarrow> replicate n (c :: char) \<le> replicate m c"
proof (induction n arbitrary: m)
  case 0
  then show ?case by simp
next
  case (Suc n)
  then obtain m' where "m = Suc m'" "n \<le> m'" by (cases m) auto
  with Suc.IH show ?case by simp
qed

lemma many_ids_sorted: "sorted many_ids"
proof -
  have "sorted_wrt (\<lambda>x y. replicate (Suc x) (CHR ''j'') \<le> replicate (Suc y) (CHR ''j''))
      [0..<1001]"
    by (rule sorted_wrt_mono_rel [OF _ sorted_upt]) (simp add: replicate_le del: replicate_Suc)
  then show ?thesis
    by (simp add: many_ids_def sorted_map del: upt_rec_numeral replicate_Suc)
qed

lemma many_ids_iteration:
  "set_order demo_runtime (rev many_ids) = many_ids"
  using sorted_list_of_set.idem_if_sorted_distinct [OF many_ids_sorted many_ids_distinct]
  by (simp add: demo_runtime_def)

lemma many_ids_Cons:
  obtains rest where "many_ids = ''j'' # rest"
proof -
  have u: "[0..<1001] = 0 # [Suc 0..<1001]" by (rule upt_conv_Cons) simp
  have "many_ids = map (\<lambda>n. replicate (Suc n) (CHR ''j'')) (0 # [Suc 0..<1001])"
    unfolding many_ids_def by (subst u) (rule refl)
  then have "many_ids = ''j'' # map (\<lambda>n. replicate (Suc n) (CHR ''j'')) [Suc 0..<1001]"
    by (simp only: list.map replicate.simps)
  then show ?thesis by (rule that)
qed

lemma many_ids_ends:
  "last (rev many_ids) = ''j''" "many_ids \<noteq> []" "''j'' \<notin> set (tl many_ids)"
proof -
  obtain rest where r: "many_ids = ''j'' # rest" by (rule many_ids_Cons)
  show "last (rev many_ids) = ''j''" "many_ids \<noteq> []" unfolding r by simp_all
  from many_ids_distinct show "''j'' \<notin> set (tl many_ids)" unfolding r by simp
qed

theorem persisted_is_iteration_tail_witness:
  "persisted (mark_all demo_runtime empty_runner [''b'', ''a'']) = [JStr ''a'', JStr ''b''] \<and>
   persisted (mark_all demo_runtime empty_runner (rev many_ids)) = map JStr (tl many_ids) \<and>
   last (rev many_ids) = ''j'' \<and>
   JStr ''j'' \<notin> set (persisted (mark_all demo_runtime empty_runner (rev many_ids))) \<and>
   length (persisted (mark_all demo_runtime empty_runner (rev many_ids))) = 1000"
proof -
  have d: "distinct [''b'', ''a'']" "[''b'', ''a''] \<noteq> []" by simp_all
  have 1: "persisted (mark_all demo_runtime empty_runner [''b'', ''a'']) =
      [JStr ''a'', JStr ''b'']"
    using persisted_is_iteration_tail [OF d, of demo_runtime]
    by (simp add: empty_runner_def demo_runtime_def last_n_def)
  have r: "distinct (rev many_ids)" "rev many_ids \<noteq> []"
    using many_ids_distinct many_ids_ends(2) by simp_all
  have t: "last_n 1000 many_ids = tl many_ids"
    by (simp add: last_n_def many_ids_length drop_Suc)
  have 2: "persisted (mark_all demo_runtime empty_runner (rev many_ids)) = map JStr (tl many_ids)"
    using persisted_is_iteration_tail [OF r, of demo_runtime]
    by (simp only: many_ids_iteration t empty_runner_def)
  from many_ids_ends(3) have 3: "JStr ''j'' \<notin> set (persisted (mark_all demo_runtime empty_runner (rev many_ids)))"
    unfolding 2 by auto
  have 4: "length (persisted (mark_all demo_runtime empty_runner (rev many_ids))) = 1000"
    unfolding 2 by (simp add: many_ids_length)
  from 1 2 3 4 many_ids_ends(1) show ?thesis by simp
qed

subsection \<open>The submission archive\<close>

lemma hex_val_hex_digit:
  assumes "k < 16"
  shows "hex_val (hex_digit k) = Some k"
proof -
  from assms consider "k = 0" | "k = 1" | "k = 2" | "k = 3" | "k = 4" | "k = 5" | "k = 6"
    | "k = 7" | "k = 8" | "k = 9" | "k = 10" | "k = 11" | "k = 12" | "k = 13" | "k = 14"
    | "k = 15"
    by atomize_elim arith
  then show ?thesis
    by cases (simp_all add: hex_digit_def hex_val_def)
qed

lemma scan_unicode_escape:
  "scan_string (CHR 0x5C # CHR ''u'' # CHR ''0'' # CHR ''0'' #
      hex_digit (of_char c div 16) # hex_digit (of_char c mod 16) # rest) =
     cons_result c (scan_string rest)"
proof -
  have d: "(of_char c :: nat) div 16 < 16"
    using nat_of_char_less_256 [of c] by (simp add: less_mult_imp_div_less)
  have z: "hex_val (CHR ''0'') = Some 0" by (simp add: hex_val_def)
  have n: "(of_char c :: nat) div 16 * 16 + of_char c mod 16 = of_char c" by simp
  show ?thesis
    by (simp add: z hex_val_hex_digit [OF d] hex_val_hex_digit n)
qed

lemma scan_escaped_char:
  "scan_string (json_escape_char c @ rest) = cons_result c (scan_string rest)"
proof -
  consider (quote) "c = CHR 0x22" | (backslash) "c = CHR 0x5C" | (nl) "c = CHR 0x0A"
    | (cr) "c = CHR 0x0D" | (tab) "c = CHR 0x09" | (bs) "c = CHR 0x08" | (ff) "c = CHR 0x0C"
    | (plain) "c \<noteq> CHR 0x22" "c \<noteq> CHR 0x5C" "32 \<le> (of_char c :: nat)" "(of_char c :: nat) \<le> 126"
    | (other) "c \<noteq> CHR 0x22" "c \<noteq> CHR 0x5C" "c \<noteq> CHR 0x0A" "c \<noteq> CHR 0x0D" "c \<noteq> CHR 0x09"
        "c \<noteq> CHR 0x08" "c \<noteq> CHR 0x0C" "\<not> (32 \<le> (of_char c :: nat) \<and> (of_char c :: nat) \<le> 126)"
    by blast
  then show ?thesis
  proof cases
    case plain
    then have "json_escape_char c = [c]"
      by (auto simp: json_escape_char_def)
    with plain show ?thesis by simp
  next
    case other
    then have "json_escape_char c = [CHR 0x5C, CHR ''u'', CHR ''0'', CHR ''0'',
        hex_digit (of_char c div 16), hex_digit (of_char c mod 16)]"
      by (simp add: json_escape_char_def)
    then show ?thesis using scan_unicode_escape [of c rest] by simp
  qed (simp_all add: json_escape_char_def simple_escape_def)
qed

lemma scan_string_escaped:
  "scan_string (concat (map json_escape_char s) @ CHR 0x22 # rest) = Some (s, rest)"
  by (induction s) (simp_all add: scan_escaped_char cons_result_def)

declare parse_pairs.simps [simp del]

lemma dumps_indent2_items:
  "d \<noteq> [] \<Longrightarrow>
   dumps_indent2 d = ''{'' @ [CHR 0x0A] @ join ('','' @ [CHR 0x0A]) (map dumps_item d) @ [CHR 0x0A] @ ''}''"
proof -
  have "(\<lambda>(k, v). ''  '' @ dumps_str k @ '': '' @ dumps_str v) = dumps_item"
    by (auto simp: fun_eq_iff dumps_item_def)
  then show "d \<noteq> [] \<Longrightarrow> ?thesis"
    by (simp add: dumps_indent2_def)
qed

lemma skip_ws_simps:
  "skip_ws (CHR '' '' # s) = skip_ws s"
  "skip_ws (CHR 0x0A # s) = skip_ws s"
  "skip_ws (CHR 0x22 # s) = CHR 0x22 # s"
  "skip_ws (CHR '':'' # s) = CHR '':'' # s"
  "skip_ws (CHR '','' # s) = CHR '','' # s"
  "skip_ws (CHR ''}'' # s) = CHR ''}'' # s"
  "skip_ws (CHR ''{'' # s) = CHR ''{'' # s"
  "skip_ws [] = []"
  by (simp_all add: skip_ws_def json_ws_def)

declare parse_pairs.simps [simp del]

text \<open>One member, followed by whatever comes next.\<close>

lemma parse_item:
  "parse_pairs (skip_ws (dumps_item (k, v) @ rest)) =
     (case skip_ws rest of
        [] \<Rightarrow> None
      | d # r5 \<Rightarrow>
          if d = CHR '','' then
            (case parse_pairs (skip_ws r5) of
               None \<Rightarrow> None
             | Some (kvs, rest') \<Rightarrow> Some ((k, v) # kvs, rest'))
          else if d = CHR ''}'' then Some ([(k, v)], r5)
          else None)"
proof -
  let ?ek = "concat (map json_escape_char k)" and ?ev = "concat (map json_escape_char v)"
  let ?r3 = "?ev @ CHR 0x22 # rest"
  let ?r1 = "CHR '':'' # CHR '' '' # CHR 0x22 # ?r3"
  have 1: "skip_ws (dumps_item (k, v) @ rest) = CHR 0x22 # (?ek @ CHR 0x22 # ?r1)"
    by (simp add: dumps_item_def dumps_str_def skip_ws_simps)
  have 2: "scan_string (?ek @ CHR 0x22 # ?r1) = Some (k, ?r1)"
    by (rule scan_string_escaped)
  have 3: "skip_ws ?r1 = ?r1"
    by (simp add: skip_ws_simps)
  have 4: "skip_ws (CHR '' '' # CHR 0x22 # ?r3) = CHR 0x22 # ?r3"
    by (simp add: skip_ws_simps)
  have 5: "scan_string ?r3 = Some (v, rest)"
    by (rule scan_string_escaped)
  show ?thesis
    unfolding 1 by (subst parse_pairs.simps) (simp only: 2 3 4 5 list.case option.case prod.case
        if_False if_True refl not_True_eq_False simp_thms)
qed

lemma parse_pairs_dumps:
  assumes "d \<noteq> []"
  shows "parse_pairs (skip_ws (join ('','' @ [CHR 0x0A]) (map dumps_item d) @ CHR 0x0A # CHR ''}'' # rest)) =
           Some (d, rest)"
  using assms
proof (induction d rule: list_nonempty_induct)
  case (single kv)
  obtain k v where kv: "kv = (k, v)" by (cases kv)
  have s: "skip_ws (CHR 0x0A # CHR ''}'' # rest) = CHR ''}'' # rest"
    by (simp add: skip_ws_simps)
  have "parse_pairs (skip_ws (dumps_item (k, v) @ CHR 0x0A # CHR ''}'' # rest)) = Some ([(k, v)], rest)"
    unfolding parse_item s by simp
  then show ?case by (simp add: kv)
next
  case (cons kv d)
  obtain k v where kv: "kv = (k, v)" by (cases kv)
  from cons.hyps obtain kv' d' where d: "d = kv' # d'" by (cases d) auto
  let ?tail = "join ('','' @ [CHR 0x0A]) (map dumps_item d) @ CHR 0x0A # CHR ''}'' # rest"
  have j: "join ('','' @ [CHR 0x0A]) (map dumps_item ((k, v) # d)) @ CHR 0x0A # CHR ''}'' # rest =
      dumps_item (k, v) @ (CHR '','' # CHR 0x0A # ?tail)"
    by (simp add: d)
  have s: "skip_ws (CHR '','' # CHR 0x0A # ?tail) = CHR '','' # (CHR 0x0A # ?tail)"
    by (simp add: skip_ws_simps)
  have s2: "skip_ws (CHR 0x0A # ?tail) = skip_ws ?tail"
    by (simp add: skip_ws_simps)
  have "parse_pairs (skip_ws (dumps_item (k, v) @ (CHR '','' # CHR 0x0A # ?tail))) =
      Some ((k, v) # d, rest)"
    unfolding parse_item s by (simp only: s2 cons.IH list.case option.case prod.case if_True refl)
  then show ?case unfolding kv j .
qed

lemma parse_pairs_starts:
  assumes "parse_pairs s = Some r"
  obtains s' where "s = CHR 0x22 # s'"
  using assms by (subst (asm) parse_pairs.simps) (auto split: list.splits if_splits)

lemma loads_object_of_pairs:
  assumes "parse_pairs (skip_ws body) = Some (d, rest)" and "skip_ws rest = []"
  shows "json_loads_object (CHR ''{'' # CHR 0x0A # body) = Some d"
proof -
  from assms(1) obtain r where r: "skip_ws body = CHR 0x22 # r"
    by (rule parse_pairs_starts)
  with assms show ?thesis
    by (simp add: json_loads_object_def skip_ws_simps)
qed

lemma loads_dumps_indent2:
  "json_loads_object (dumps_indent2 d) = Some d"
proof (cases "d = []")
  case True
  then show ?thesis
    by (simp add: dumps_indent2_def json_loads_object_def skip_ws_simps)
next
  case False
  let ?body = "join ('','' @ [CHR 0x0A]) (map dumps_item d) @ CHR 0x0A # CHR ''}'' # []"
  have t: "dumps_indent2 d = CHR ''{'' # CHR 0x0A # ?body"
    using False by (simp add: dumps_indent2_items)
  have p: "parse_pairs (skip_ws ?body) = Some (d, [])"
    by (rule parse_pairs_dumps [OF False])
  show ?thesis
    unfolding t by (rule loads_object_of_pairs [OF p]) (simp add: skip_ws_simps)
qed

text \<open>
  C8.  The archive has exactly the three members \<open>response.txt\<close>, \<open>prompt.txt\<close> and
  \<open>metadata.json\<close>; the answer member is the answer without trailing white space,
  followed by one newline (\<open>"all good\n"\<close> for the answer \<open>"all good"\<close>); the metadata
  member is a JSON text that parses to an object whose \<open>job_id\<close> and \<open>model\<close> are the
  job id and the model label given.
\<close>

theorem submission_archive_contents:
  "map fst (create_submission_archive job_id prompt answer model_name now) =
     [''response.txt'', ''prompt.txt'', ''metadata.json''] \<and>
   map_of (create_submission_archive job_id prompt answer model_name now) ''response.txt'' =
     Some (rstrip answer @ [CHR 0x0A]) \<and>
   map_of (create_submission_archive job_id ''what is up'' ''all good'' model_name now)
     ''response.txt'' = Some (''all good'' @ [CHR 0x0A]) \<and>
   map_of (create_submission_archive job_id prompt answer model_name now) ''metadata.json'' =
     Some (dumps_indent2
       [(''job_id'', job_id), (''model'', model_name), (''generated_at_utc'', now)]) \<and>
   json_loads_object (dumps_indent2
       [(''job_id'', job_id), (''model'', model_name), (''generated_at_utc'', now)]) =
     Some [(''job_id'', job_id), (''model'', model_name), (''generated_at_utc'', now)]"
proof -
  have "rstrip ''all good'' = ''all good''"
    by (simp add: rstrip_def py_isspace_def)
  then show ?thesis
    by (simp add: create_submission_archive_def loads_dumps_indent2)
qed

end
